theory Spec2Isabelle
  imports Complex_Main "HOL-Library.AList"
begin

section \<open>Python values and exceptions\<close>

text \<open>
  The service of \<^verbatim>\<open>app.py\<close> handles JSON request bodies, OpenStreetMap edge and node
  attributes and a road graph. All of them are Python objects; \<open>pyval\<close> is the fragment of
  Python's values the code can meet: \<open>None\<close>, booleans, numbers, strings, lists, dictionaries
  with string keys, and opaque objects (a geometry, for instance). Python's \<open>float\<close> and
  \<open>int\<close> are both read as real numbers: rounding, infinities and NaN are outside the model.
\<close>

datatype pyval =
    PNone
  | PBool bool
  | PNum real
  | PStr string
  | PList "pyval list"
  | PDict "(string \<times> pyval) list"
  | PObj nat

datatype exc_class =
    KeyError | IndexError | ValueError | TypeError | ZeroDivisionError | AttributeError
  | OSError | UnpicklingError | BadRequest | NetworkXNoPath | NodeNotFound | OtherException

text \<open>An exception is its class and the text \<open>str(e)\<close> gives for it.\<close>

datatype py_exc = Exc exc_class string

fun exc_class_of :: "py_exc \<Rightarrow> exc_class" where
  "exc_class_of (Exc c m) = c"

fun str_exc :: "py_exc \<Rightarrow> string" where
  "str_exc (Exc c m) = m"

text \<open>\<open>str(KeyError(k))\<close> is the key's \<open>repr\<close>: the key between single quotes.\<close>

definition key_error :: "string \<Rightarrow> py_exc" where
  "key_error k = Exc KeyError ([CHR 0x27] @ k @ [CHR 0x27])"

type_synonym attrs = "(string \<times> pyval) list"

text \<open>\<open>d[k]\<close> on a dictionary: the value, or \<open>KeyError\<close>.\<close>

definition dict_get :: "attrs \<Rightarrow> string \<Rightarrow> py_exc + pyval" where
  "dict_get d k = (case map_of d k of None \<Rightarrow> Inl (key_error k) | Some v \<Rightarrow> Inr v)"

section \<open>The road graph\<close>

text \<open>
  A networkx \<open>MultiDiGraph\<close>: nodes with their attribute dictionaries, and edges
  \<open>(u, v, key, data)\<close> in the order \<open>G.edges(data=True)\<close> yields them.
\<close>

type_synonym node = int

type_synonym edge = "node \<times> node \<times> nat \<times> attrs"

record road_graph =
  g_nodes :: "(node \<times> attrs) list"
  g_edges :: "edge list"

section \<open>The libraries and the world outside\<close>

text \<open>
  Everything the program calls and does not define is a parameter: the result of each call
  is what the library or the world answers. A call whose answer can change from one call to
  the next (a download, the clock, a write to disk) is indexed by the number of calls made
  before it, which the state counts.
\<close>

datatype write_outcome = WriteOk | OpenFails | DumpFails

record env =
  float_of_str :: "string \<Rightarrow> real option"
  graph_from_place :: "attrs \<Rightarrow> nat \<Rightarrow> py_exc + road_graph"
  graph_from_bbox :: "real \<times> real \<times> real \<times> real \<Rightarrow> nat \<Rightarrow> py_exc + road_graph"
  cache_write :: "nat \<Rightarrow> write_outcome"
  datetime_now :: "nat \<Rightarrow> real"
  nearest_nodes :: "road_graph option \<Rightarrow> pyval \<Rightarrow> pyval \<Rightarrow> py_exc + node"
  nx_shortest_path :: "road_graph option \<Rightarrow> node \<Rightarrow> node \<Rightarrow> string \<Rightarrow> py_exc + node list"
  folium_html :: "pyval list \<Rightarrow> (pyval \<times> pyval) list \<Rightarrow> py_exc + string"

section \<open>Speed normalisation and travel time\<close>

text \<open>
  \<open>float(x)\<close>: a number is itself, a boolean is 0 or 1, a string is parsed by the
  interpreter (\<open>float_of_str\<close>, \<open>None\<close> being \<open>ValueError\<close>), anything else is a
  \<open>TypeError\<close>.
\<close>

fun py_float :: "env \<Rightarrow> pyval \<Rightarrow> py_exc + real" where
  "py_float e (PNum r) = Inr r"
| "py_float e (PBool b) = Inr (if b then 1 else 0)"
| "py_float e (PStr s) =
     (case float_of_str e s of
        None \<Rightarrow> Inl (Exc ValueError (''could not convert string to float: '' @ [CHR 0x27] @ s @ [CHR 0x27]))
      | Some r \<Rightarrow> Inr r)"
| "py_float e v = Inl (Exc TypeError ''float() argument must be a string or a real number'')"

text \<open>
  \<open>s.split()\<close>: the maximal runs of characters that are not whitespace. The whitespace
  of \<open>str.split\<close> within ASCII is tab, line feed, vertical tab, form feed, carriage return,
  the four separators 0x1c to 0x1f and the space.
\<close>

definition py_isspace :: "char \<Rightarrow> bool" where
  "py_isspace c = (c \<in> set [CHR 0x09, CHR 0x0A, CHR 0x0B, CHR 0x0C, CHR 0x0D,
                              CHR 0x1C, CHR 0x1D, CHR 0x1E, CHR 0x1F, CHR 0x20])"

fun split_ws :: "string \<Rightarrow> string \<Rightarrow> string list" where
  "split_ws cur [] = (if cur = [] then [] else [rev cur])"
| "split_ws cur (c # cs) =
     (if py_isspace c then (if cur = [] then split_ws [] cs else rev cur # split_ws [] cs)
      else split_ws (c # cur) cs)"

definition py_split :: "string \<Rightarrow> string list" where
  "py_split s = split_ws [] s"

text \<open>Lines 72 to 73: \<open>if "maxspeed" not in data: data["maxspeed"] = 30\<close>.\<close>

definition set_default_speed :: "attrs \<Rightarrow> attrs" where
  "set_default_speed d =
     (if map_of d ''maxspeed'' = None then AList.update ''maxspeed'' (PNum 30) d else d)"

text \<open>Lines 74 to 75: a list is replaced by the \<open>float\<close> of its first element.\<close>

definition norm_list_speed :: "env \<Rightarrow> attrs \<Rightarrow> py_exc + attrs" where
  "norm_list_speed e d =
     (case map_of d ''maxspeed'' of
        Some (PList xs) \<Rightarrow>
          (case xs of
             [] \<Rightarrow> Inl (Exc IndexError ''list index out of range'')
           | x # _ \<Rightarrow>
               (case py_float e x of
                  Inl err \<Rightarrow> Inl err
                | Inr r \<Rightarrow> Inr (AList.update ''maxspeed'' (PNum r) d)))
      | _ \<Rightarrow> Inr d)"

text \<open>Lines 76 to 77: a string is replaced by the \<open>float\<close> of its first token.\<close>

definition norm_str_speed :: "env \<Rightarrow> attrs \<Rightarrow> py_exc + attrs" where
  "norm_str_speed e d =
     (case map_of d ''maxspeed'' of
        Some (PStr s) \<Rightarrow>
          (case py_split s of
             [] \<Rightarrow> Inl (Exc IndexError ''list index out of range'')
           | t # _ \<Rightarrow>
               (case py_float e (PStr t) of
                  Inl err \<Rightarrow> Inl err
                | Inr r \<Rightarrow> Inr (AList.update ''maxspeed'' (PNum r) d)))
      | _ \<Rightarrow> Inr d)"

text \<open>
  Lines 80 to 83: the travel time in seconds. The dictionary is mutated in place, so the
  body of the loop returns the dictionary as it stands when it stops, with the exception
  that stopped it, if any.
\<close>

definition travel_time_of :: "real \<Rightarrow> real \<Rightarrow> real" where
  "travel_time_of len speed = len / (speed * 1000 / 3600)"

definition set_travel_time :: "env \<Rightarrow> attrs \<Rightarrow> py_exc option \<times> attrs" where
  "set_travel_time e d =
     (case dict_get d ''length'' of
        Inl err \<Rightarrow> (Some err, d)
      | Inr lv \<Rightarrow>
     (case py_float e lv of
        Inl err \<Rightarrow> (Some err, d)
      | Inr len \<Rightarrow>
     (case dict_get d ''maxspeed'' of
        Inl err \<Rightarrow> (Some err, d)
      | Inr sv \<Rightarrow>
     (case py_float e sv of
        Inl err \<Rightarrow> (Some err, d)
      | Inr speed \<Rightarrow>
         if speed * 1000 / 3600 = 0 then (Some (Exc ZeroDivisionError ''float division by zero''), d)
         else (None, AList.update ''travel_time'' (PNum (travel_time_of len speed)) d)))))"

definition annotate_edge :: "env \<Rightarrow> attrs \<Rightarrow> py_exc option \<times> attrs" where
  "annotate_edge e d =
     (let d1 = set_default_speed d in
      case norm_list_speed e d1 of
        Inl err \<Rightarrow> (Some err, d1)
      | Inr d2 \<Rightarrow>
     (case norm_str_speed e d2 of
        Inl err \<Rightarrow> (Some err, d2)
      | Inr d3 \<Rightarrow> set_travel_time e d3))"

text \<open>The loop over \<open>self.graph.edges(data=True)\<close>: it stops at the first exception.\<close>

fun annotate_edges :: "env \<Rightarrow> edge list \<Rightarrow> py_exc option \<times> edge list" where
  "annotate_edges e [] = (None, [])"
| "annotate_edges e ((u, v, k, d) # es) =
     (case annotate_edge e d of
        (Some err, d') \<Rightarrow> (Some err, (u, v, k, d') # es)
      | (None, d') \<Rightarrow>
          (case annotate_edges e es of (r, es') \<Rightarrow> (r, (u, v, k, d') # es')))"

section \<open>The service state\<close>

text \<open>
  The cache file \<^verbatim>\<open>bengaluru_graph.pickle\<close> holds a pickled graph, or bytes that
  cannot be opened or unpickled.
\<close>

datatype pickle_file = Pickled road_graph | Corrupt

text \<open>
  The fields of \<open>RouteService\<close> (the graph, the time of the last update), the table of
  \<open>lru_cache\<close> behind \<open>get_nearest_node\<close> (most recently used entry first), the cache
  file on disk, and one counter per outside call: downloads by place and by bounding box,
  writes of the cache file, reads of the clock and searches for a nearest node. The lock
  of \<open>load_graph\<close> is not modelled: each operation runs alone.
\<close>

record state =
  graph :: "road_graph option"
  last_update :: "real option"
  lru :: "((pyval \<times> pyval) \<times> node) list"
  cache_file :: "pickle_file option"
  place_calls :: nat
  bbox_calls :: nat
  write_calls :: nat
  clock_reads :: nat
  search_calls :: nat

definition update_interval :: real where
  "update_interval = 24 * 60 * 60"

text \<open>\<open>not self.graph\<close>: \<open>None\<close> is false, and a graph is false when it has no node.\<close>

definition graph_truthy :: "road_graph option \<Rightarrow> bool" where
  "graph_truthy go = (case go of None \<Rightarrow> False | Some g \<Rightarrow> g_nodes g \<noteq> [])"

section \<open>Downloading and caching the graph\<close>

text \<open>Lines 86 to 87 and 125 to 126: \<open>open(self.cache_file, "wb")\<close> and \<open>pickle.dump\<close>.\<close>

definition write_cache :: "env \<Rightarrow> road_graph \<Rightarrow> state \<Rightarrow> py_exc option \<times> state" where
  "write_cache e g s =
     (let s1 = s\<lparr>write_calls := Suc (write_calls s)\<rparr> in
      case cache_write e (write_calls s) of
        WriteOk \<Rightarrow> (None, s1\<lparr>cache_file := Some (Pickled g)\<rparr>)
      | OpenFails \<Rightarrow> (Some (Exc OSError ''cannot open the cache file''), s1)
      | DumpFails \<Rightarrow> (Some (Exc OSError ''cannot write the cache file''), s1\<lparr>cache_file := Some Corrupt\<rparr>))"

text \<open>
  Lines 65 to 88 and 102 to 127 after the download: the two methods share this text word
  for word. \<open>self.graph\<close> is assigned first and its edges are then mutated in place, so
  an exception in the loop leaves the new graph in memory, annotated up to that edge.
\<close>

definition annotate_and_cache :: "env \<Rightarrow> road_graph \<Rightarrow> state \<Rightarrow> py_exc option \<times> state" where
  "annotate_and_cache e g s =
     (case annotate_edges e (g_edges g) of
        (Some err, es') \<Rightarrow> (Some err, s\<lparr>graph := Some (g\<lparr>g_edges := es'\<rparr>)\<rparr>)
      | (None, es') \<Rightarrow>
          write_cache e (g\<lparr>g_edges := es'\<rparr>) (s\<lparr>graph := Some (g\<lparr>g_edges := es'\<rparr>)\<rparr>))"

definition bbox :: "real \<times> real \<times> real \<times> real" where
  "bbox = (13.023, 12.864, 77.766, 77.484)"

definition place_query :: attrs where
  "place_query = [(''city'', PStr ''Bengaluru''), (''state'', PStr ''Karnataka''),
                  (''country'', PStr ''India'')]"

text \<open>\<open>download_using_bbox\<close>: its \<open>except\<close> prints and raises the exception again.\<close>

definition download_using_bbox :: "env \<Rightarrow> state \<Rightarrow> py_exc option \<times> state" where
  "download_using_bbox e s =
     (let s1 = s\<lparr>bbox_calls := Suc (bbox_calls s)\<rparr> in
      case graph_from_bbox e bbox (bbox_calls s) of
        Inl err \<Rightarrow> (Some err, s1)
      | Inr g \<Rightarrow> annotate_and_cache e g s1)"

text \<open>\<open>download_and_cache_graph\<close>: any exception of its \<open>try\<close> leads to the fallback.\<close>

definition download_by_place :: "env \<Rightarrow> state \<Rightarrow> py_exc option \<times> state" where
  "download_by_place e s =
     (let s1 = s\<lparr>place_calls := Suc (place_calls s)\<rparr> in
      case graph_from_place e place_query (place_calls s) of
        Inl err \<Rightarrow> (Some err, s1)
      | Inr g \<Rightarrow> annotate_and_cache e g s1)"

definition download_and_cache_graph :: "env \<Rightarrow> state \<Rightarrow> py_exc option \<times> state" where
  "download_and_cache_graph e s =
     (case download_by_place e s of
        (None, s1) \<Rightarrow> (None, s1)
      | (Some err, s1) \<Rightarrow> download_using_bbox e s1)"

section \<open>Loading and refreshing the graph\<close>

text \<open>\<open>should_update_graph\<close>: the clock is read only when a graph and a time are there.\<close>

definition should_update_graph :: "env \<Rightarrow> state \<Rightarrow> bool \<times> state" where
  "should_update_graph e s =
     (if \<not> graph_truthy (graph s) then (True, s)
      else case last_update s of
        None \<Rightarrow> (True, s)
      | Some t \<Rightarrow> (datetime_now e (clock_reads s) - t > update_interval,
                   s\<lparr>clock_reads := Suc (clock_reads s)\<rparr>))"

text \<open>Line 40: \<open>self.last_update = datetime.now()\<close>.\<close>

definition stamp :: "env \<Rightarrow> state \<Rightarrow> state" where
  "stamp e s = s\<lparr>last_update := Some (datetime_now e (clock_reads s)),
                 clock_reads := Suc (clock_reads s)\<rparr>"

text \<open>Lines 32 to 40, the \<open>try\<close> block of \<open>load_graph\<close>.\<close>

definition load_or_download :: "env \<Rightarrow> state \<Rightarrow> py_exc option \<times> state" where
  "load_or_download e s =
     (case cache_file s of
        Some (Pickled g) \<Rightarrow> (None, stamp e (s\<lparr>graph := Some g\<rparr>))
      | Some Corrupt \<Rightarrow> (Some (Exc UnpicklingError ''cannot load the cache file''), s)
      | None \<Rightarrow>
          (case download_and_cache_graph e s of
             (None, s1) \<Rightarrow> (None, stamp e s1)
           | (Some err, s1) \<Rightarrow> (Some err, s1)))"

text \<open>
  \<open>load_graph\<close>. Its \<open>except\<close> (lines 41 to 44) prints the exception and downloads
  only when no graph is in memory; an exception of that download leaves the method.
\<close>

definition load_graph :: "env \<Rightarrow> state \<Rightarrow> py_exc option \<times> state" where
  "load_graph e s =
     (case should_update_graph e s of
        (False, s1) \<Rightarrow> (None, s1)
      | (True, s1) \<Rightarrow>
          (case load_or_download e s1 of
             (None, s2) \<Rightarrow> (None, s2)
           | (Some err, s2) \<Rightarrow>
               if \<not> graph_truthy (graph s2) then download_and_cache_graph e s2
               else (None, s2)))"

text \<open>\<open>RouteService.__init__\<close>: nothing in memory, then \<open>load_graph\<close>.\<close>

definition new_service :: "pickle_file option \<Rightarrow> state" where
  "new_service f = \<lparr>graph = None, last_update = None, lru = [], cache_file = f,
                    place_calls = 0, bbox_calls = 0, write_calls = 0, clock_reads = 0,
                    search_calls = 0\<rparr>"

definition route_service_init :: "env \<Rightarrow> pickle_file option \<Rightarrow> py_exc option \<times> state" where
  "route_service_init e f = load_graph e (new_service f)"

section \<open>Nearest nodes, memoised\<close>

text \<open>
  \<open>@lru_cache(maxsize=1000)\<close> keys its table on the arguments, which must be hashable
  (a list or a dictionary is not); keys are compared with \<open>==\<close>, under which \<open>True\<close> is
  \<open>1\<close> and \<open>False\<close> is \<open>0\<close>. A hit moves the entry to the front; a miss calls the function
  and, when it returns, stores the result at the front, dropping the least recently used
  entry of a full table. An exception of the function stores nothing.
\<close>

definition maxsize :: nat where
  "maxsize = 1000"

fun hashable :: "pyval \<Rightarrow> bool" where
  "hashable (PList xs) = False"
| "hashable (PDict d) = False"
| "hashable v = True"

fun hash_key :: "pyval \<Rightarrow> pyval" where
  "hash_key (PBool b) = PNum (if b then 1 else 0)"
| "hash_key v = v"

definition lru_hit :: "'k \<Rightarrow> 'v \<Rightarrow> ('k \<times> 'v) list \<Rightarrow> ('k \<times> 'v) list" where
  "lru_hit k v c = (k, v) # filter (\<lambda>p. fst p \<noteq> k) c"

definition lru_insert :: "'k \<Rightarrow> 'v \<Rightarrow> ('k \<times> 'v) list \<Rightarrow> ('k \<times> 'v) list" where
  "lru_insert k v c = (k, v) # (if length c \<ge> maxsize then butlast c else c)"

text \<open>
  \<open>get_nearest_node(self, lat, lng)\<close> returns \<open>ox.nearest_nodes(self.graph, lng, lat)\<close>.
  The caller unpacks a tuple into the arguments, so the model takes the list of them; any
  number but two is a \<open>TypeError\<close> of the call.
\<close>

definition get_nearest_node :: "env \<Rightarrow> state \<Rightarrow> pyval list \<Rightarrow> (py_exc + node) \<times> state" where
  "get_nearest_node e s args =
     (if \<not> list_all hashable args then (Inl (Exc TypeError ''unhashable type''), s)
      else case args of
        [lat, lng] \<Rightarrow>
          (let k = (hash_key lat, hash_key lng) in
           case map_of (lru s) k of
             Some n \<Rightarrow> (Inr n, s\<lparr>lru := lru_hit k n (lru s)\<rparr>)
           | None \<Rightarrow>
               (case nearest_nodes e (graph s) lng lat of
                  Inl err \<Rightarrow> (Inl err, s\<lparr>search_calls := Suc (search_calls s)\<rparr>)
                | Inr n \<Rightarrow> (Inr n, s\<lparr>lru := lru_insert k n (lru s),
                                        search_calls := Suc (search_calls s)\<rparr>)))
      | _ \<Rightarrow> (Inl (Exc TypeError ''get_nearest_node() takes 3 positional arguments''), s))"

section \<open>The shortest path\<close>

text \<open>
  \<open>find_shortest_path\<close>: the two lookups and the search are inside one \<open>try\<close>, whose
  \<open>except\<close> turns \<open>NetworkXNoPath\<close> and \<open>NodeNotFound\<close> into \<open>None\<close>; any other
  exception leaves the method.
\<close>

definition catch_no_path :: "py_exc \<Rightarrow> py_exc + node list option" where
  "catch_no_path err =
     (if exc_class_of err = NetworkXNoPath \<or> exc_class_of err = NodeNotFound then Inr None
      else Inl err)"

definition find_shortest_path ::
  "env \<Rightarrow> state \<Rightarrow> pyval list \<Rightarrow> pyval list \<Rightarrow> (py_exc + node list option) \<times> state" where
  "find_shortest_path e s origin destination =
     (case get_nearest_node e s origin of
        (Inl err, s1) \<Rightarrow> (catch_no_path err, s1)
      | (Inr origin_node, s1) \<Rightarrow>
     (case get_nearest_node e s1 destination of
        (Inl err, s2) \<Rightarrow> (catch_no_path err, s2)
      | (Inr dest_node, s2) \<Rightarrow>
     (case nx_shortest_path e (graph s2) origin_node dest_node ''travel_time'' of
        Inl err \<Rightarrow> (catch_no_path err, s2)
      | Inr path \<Rightarrow> (Inr (Some path), s2))))"

section \<open>The map of a route\<close>

text \<open>Decimal text of an integer, for the message of a \<open>KeyError\<close> on a node.\<close>

function nat_digits :: "nat \<Rightarrow> string" where
  "nat_digits n =
     (if n < 10 then [char_of (48 + n)]
      else nat_digits (n div 10) @ [char_of (48 + n mod 10)])"
  by pat_completeness auto
termination
  by (relation "measure id") auto

definition repr_int :: "int \<Rightarrow> string" where
  "repr_int i = (if i < 0 then ''-'' @ nat_digits (nat (- i)) else nat_digits (nat i))"

text \<open>\<open>self.graph.nodes[node][a]\<close>.\<close>

definition node_attr :: "road_graph option \<Rightarrow> node \<Rightarrow> string \<Rightarrow> py_exc + pyval" where
  "node_attr go n a =
     (case go of
        None \<Rightarrow> Inl (Exc AttributeError ''NoneType object has no attribute nodes'')
      | Some g \<Rightarrow>
          (case map_of (g_nodes g) n of
             None \<Rightarrow> Inl (Exc KeyError (repr_int n))
           | Some d \<Rightarrow> dict_get d a))"

text \<open>Lines 157 to 160: the pairs \<open>(y, x)\<close> of the nodes of the path.\<close>

fun path_coords :: "road_graph option \<Rightarrow> node list \<Rightarrow> py_exc + (pyval \<times> pyval) list" where
  "path_coords go [] = Inr []"
| "path_coords go (n # ns) =
     (case node_attr go n ''y'' of
        Inl err \<Rightarrow> Inl err
      | Inr y \<Rightarrow>
     (case node_attr go n ''x'' of
        Inl err \<Rightarrow> Inl err
      | Inr x \<Rightarrow>
     (case path_coords go ns of
        Inl err \<Rightarrow> Inl err
      | Inr cs \<Rightarrow> Inr ((y, x) # cs))))"

text \<open>
  \<open>create_route_map\<close>: \<open>None\<close> stands for the pair \<open>(None, None)\<close> it returns for an
  empty path and after any exception; the map, its markers and its line are folium's, and
  \<open>folium_html\<close> is the text \<open>m._repr_html_()\<close> gives.
\<close>

definition create_route_map ::
  "env \<Rightarrow> state \<Rightarrow> pyval list \<Rightarrow> node list \<Rightarrow> (string \<times> (pyval \<times> pyval) list) option" where
  "create_route_map e s origin path =
     (if path = [] then None
      else case path_coords (graph s) path of
        Inl err \<Rightarrow> None
      | Inr cs \<Rightarrow>
          if length origin < 2 then None
          else (case folium_html e [origin ! 0, origin ! 1] cs of
                  Inl err \<Rightarrow> None
                | Inr html \<Rightarrow> Some (html, cs)))"

section \<open>The request handler\<close>

text \<open>\<open>data[k]\<close> with a string \<open>k\<close>, on whatever the body of the request holds.\<close>

fun py_getitem :: "pyval \<Rightarrow> string \<Rightarrow> py_exc + pyval" where
  "py_getitem (PDict d) k = dict_get d k"
| "py_getitem (PList xs) k = Inl (Exc TypeError ''list indices must be integers or slices, not str'')"
| "py_getitem (PStr s) k = Inl (Exc TypeError ''string indices must be integers'')"
| "py_getitem v k = Inl (Exc TypeError ''object is not subscriptable'')"

text \<open>\<open>tuple(x)\<close>: the elements of a list, the characters of a string, the keys of a dictionary.\<close>

fun py_tuple :: "pyval \<Rightarrow> py_exc + pyval list" where
  "py_tuple (PList xs) = Inr xs"
| "py_tuple (PStr s) = Inr (map (\<lambda>c. PStr [c]) s)"
| "py_tuple (PDict d) = Inr (map (\<lambda>p. PStr (fst p)) d)"
| "py_tuple v = Inl (Exc TypeError ''object is not iterable'')"

text \<open>\<open>route_service.graph[u][v][k][a]\<close>, each subscript with its \<open>KeyError\<close>.\<close>

definition edge_attr ::
  "road_graph option \<Rightarrow> node \<Rightarrow> node \<Rightarrow> nat \<Rightarrow> string \<Rightarrow> py_exc + pyval" where
  "edge_attr go u v k a =
     (case go of
        None \<Rightarrow> Inl (Exc TypeError ''NoneType object is not subscriptable'')
      | Some g \<Rightarrow>
          if map_of (g_nodes g) u = None then Inl (Exc KeyError (repr_int u))
          else if \<not> list_ex (\<lambda>(u', v', k', d). u' = u \<and> v' = v) (g_edges g)
            then Inl (Exc KeyError (repr_int v))
          else (case map_of (map (\<lambda>(u', v', k', d). ((u', v', k'), d)) (g_edges g)) (u, v, k) of
                  None \<Rightarrow> Inl (Exc KeyError (repr_int (int k)))
                | Some d \<Rightarrow> dict_get d a))"

definition edge_float ::
  "env \<Rightarrow> road_graph option \<Rightarrow> node \<Rightarrow> node \<Rightarrow> string \<Rightarrow> py_exc + real" where
  "edge_float e go u v a =
     (case edge_attr go u v 0 a of Inl err \<Rightarrow> Inl err | Inr x \<Rightarrow> py_float e x)"

text \<open>\<open>sum(f(i) for i in ...)\<close>: the first exception ends the sum.\<close>

fun sum_over :: "(nat \<Rightarrow> py_exc + real) \<Rightarrow> nat list \<Rightarrow> py_exc + real" where
  "sum_over f [] = Inr 0"
| "sum_over f (i # js) =
     (case f i of
        Inl err \<Rightarrow> Inl err
      | Inr x \<Rightarrow> (case sum_over f js of Inl err \<Rightarrow> Inl err | Inr y \<Rightarrow> Inr (x + y)))"

text \<open>Lines 207 to 214: one sum, over \<open>range(len(path) - 1)\<close>, of the attribute \<open>a\<close>.\<close>

definition path_sum :: "env \<Rightarrow> road_graph option \<Rightarrow> node list \<Rightarrow> string \<Rightarrow> py_exc + real" where
  "path_sum e go path a =
     sum_over (\<lambda>i. edge_float e go (path ! i) (path ! (i + 1)) a) [0 ..< length path - 1]"

text \<open>What \<open>jsonify\<close> can write: every value but an opaque object.\<close>

fun serializable :: "pyval \<Rightarrow> bool" where
  "serializable (PObj n) = False"
| "serializable (PList xs) = list_all serializable xs"
| "serializable (PDict d) = list_all (\<lambda>p. serializable (snd p)) d"
| "serializable v = True"

datatype body =
    ErrorBody string
  | RouteBody "(pyval \<times> pyval) list" real real

type_synonym response = "nat \<times> body"

text \<open>
  The body of the \<open>try\<close> of \<open>shortest_path\<close>, lines 189 to 217. The request is what
  \<open>request.json\<close> evaluates to: a value, or the exception Flask raises for a body that
  is not JSON. \<open>RouteBody cs d t\<close> is \<open>{"path": cs, "stats": {"total_distance": d,
  "estimated_time": t}}\<close>.
\<close>

definition shortest_path_try ::
  "env \<Rightarrow> state \<Rightarrow> py_exc + pyval \<Rightarrow> (py_exc + response) \<times> state" where
  "shortest_path_try e s req =
     (case req of Inl err \<Rightarrow> (Inl err, s) | Inr data \<Rightarrow>
     (case py_getitem data ''origin'' of Inl err \<Rightarrow> (Inl err, s) | Inr ov \<Rightarrow>
     (case py_tuple ov of Inl err \<Rightarrow> (Inl err, s) | Inr origin \<Rightarrow>
     (case py_getitem data ''destination'' of Inl err \<Rightarrow> (Inl err, s) | Inr dv \<Rightarrow>
     (case py_tuple dv of Inl err \<Rightarrow> (Inl err, s) | Inr destination \<Rightarrow>
     (case find_shortest_path e s origin destination of
        (Inl err, s1) \<Rightarrow> (Inl err, s1)
      | (Inr None, s1) \<Rightarrow> (Inr (404, ErrorBody ''No path found between the given points''), s1)
      | (Inr (Some path), s1) \<Rightarrow>
          if path = [] then (Inr (404, ErrorBody ''No path found between the given points''), s1)
          else
     (case create_route_map e s1 origin path of
        None \<Rightarrow> (Inr (500, ErrorBody ''Error creating map visualization''), s1)
      | Some (map_html, cs) \<Rightarrow>
          if map_html = [] then (Inr (500, ErrorBody ''Error creating map visualization''), s1)
          else
     (case path_sum e (graph s1) path ''length'' of Inl err \<Rightarrow> (Inl err, s1) | Inr total_distance \<Rightarrow>
     (case path_sum e (graph s1) path ''travel_time'' of Inl err \<Rightarrow> (Inl err, s1) | Inr estimated_time \<Rightarrow>
        if list_all (\<lambda>(y, x). serializable y \<and> serializable x) cs
        then (Inr (200, RouteBody cs total_distance estimated_time), s1)
        else (Inl (Exc TypeError ''Object is not JSON serializable''), s1))))))))))"

text \<open>\<open>shortest_path\<close>: \<open>except Exception as e\<close> answers 500 with \<open>str(e)\<close>.\<close>

definition shortest_path :: "env \<Rightarrow> state \<Rightarrow> py_exc + pyval \<Rightarrow> response \<times> state" where
  "shortest_path e s req =
     (case shortest_path_try e s req of
        (Inl err, s1) \<Rightarrow> ((500, ErrorBody (str_exc err)), s1)
      | (Inr r, s1) \<Rightarrow> (r, s1))"

section \<open>The service as it runs\<close>

text \<open>
  After \<open>route_service = RouteService()\<close> two things touch the service: the handler of
  \<open>/shortest-path\<close>, once per request, and \<open>periodic_graph_update\<close>, whose loop sleeps
  and calls \<open>load_graph\<close>. A run is a list of these events, each taken alone; when
  \<open>load_graph\<close> raises in the loop its thread ends, so the runs with later refreshes are
  more than the program has.
\<close>

datatype event = Request "py_exc + pyval" | Refresh

fun run :: "env \<Rightarrow> state \<Rightarrow> event list \<Rightarrow> state" where
  "run e s [] = s"
| "run e s (Request req # evs) = run e (snd (shortest_path e s req)) evs"
| "run e s (Refresh # evs) = run e (snd (load_graph e s)) evs"

section \<open>The words of the specification\<close>

text \<open>The leading token of a string: its first maximal run of characters that are not whitespace.\<close>

definition leading_token :: "string \<Rightarrow> string" where
  "leading_token s = takeWhile (\<lambda>c. \<not> py_isspace c) (dropWhile py_isspace s)"

text \<open>
  \<open>edge_annotated e d d'\<close>: the attributes \<open>d'\<close> are the attributes \<open>d\<close> with the speed
  normalised and the travel time added. An absent speed is stored as 30, a list as the
  number its first element converts to, a string as the number its leading token parses
  to; the travel time is the length over the speed in metres per second; every other
  attribute is as it was.
\<close>

definition edge_annotated :: "env \<Rightarrow> attrs \<Rightarrow> attrs \<Rightarrow> bool" where
  "edge_annotated e d d' \<longleftrightarrow>
     (map_of d ''maxspeed'' = None \<longrightarrow> map_of d' ''maxspeed'' = Some (PNum 30)) \<and>
     (\<forall>xs. map_of d ''maxspeed'' = Some (PList xs) \<longrightarrow>
        (\<exists>r. xs \<noteq> [] \<and> py_float e (hd xs) = Inr r \<and> map_of d' ''maxspeed'' = Some (PNum r))) \<and>
     (\<forall>str. map_of d ''maxspeed'' = Some (PStr str) \<longrightarrow>
        (\<exists>r. float_of_str e (leading_token str) = Some r \<and> map_of d' ''maxspeed'' = Some (PNum r))) \<and>
     (\<exists>lv len sv speed.
        map_of d' ''length'' = Some lv \<and> py_float e lv = Inr len \<and>
        map_of d' ''maxspeed'' = Some sv \<and> py_float e sv = Inr speed \<and> speed \<noteq> 0 \<and>
        map_of d' ''travel_time'' = Some (PNum (len / (speed * 1000 / 3600)))) \<and>
     (\<forall>k. k \<noteq> ''maxspeed'' \<and> k \<noteq> ''travel_time'' \<longrightarrow> map_of d' k = map_of d k)"

definition edge_rel :: "env \<Rightarrow> edge \<Rightarrow> edge \<Rightarrow> bool" where
  "edge_rel e a b =
     (case (a, b) of ((u, v, k, d), (u', v', k', d')) \<Rightarrow>
        u' = u \<and> v' = v \<and> k' = k \<and> edge_annotated e d d')"

text \<open>
  The two coordinate tuples of a request, when its body yields them: \<open>None\<close> for a body
  that is not JSON, has no \<open>origin\<close> or \<open>destination\<close>, or holds there a value
  \<open>tuple\<close> rejects.
\<close>

definition request_points :: "py_exc + pyval \<Rightarrow> (pyval list \<times> pyval list) option" where
  "request_points req =
     (case req of Inl err \<Rightarrow> None | Inr data \<Rightarrow>
     (case py_getitem data ''origin'' of Inl err \<Rightarrow> None | Inr ov \<Rightarrow>
     (case py_tuple ov of Inl err \<Rightarrow> None | Inr origin \<Rightarrow>
     (case py_getitem data ''destination'' of Inl err \<Rightarrow> None | Inr dv \<Rightarrow>
     (case py_tuple dv of Inl err \<Rightarrow> None | Inr destination \<Rightarrow> Some (origin, destination))))))"

text \<open>
  \<open>index0_values e g a path ls\<close>: \<open>ls\<close> lists, for the consecutive pairs of nodes of
  \<open>path\<close>, the number held by the attribute \<open>a\<close> of the parallel edge with key 0.
\<close>

definition index0_values ::
  "env \<Rightarrow> road_graph option \<Rightarrow> string \<Rightarrow> node list \<Rightarrow> real list \<Rightarrow> bool" where
  "index0_values e go a path ls \<longleftrightarrow>
     list_all2 (\<lambda>(u, v) l. \<exists>x. edge_attr go u v 0 a = Inr x \<and> py_float e x = Inr l)
       (zip path (tl path)) ls"

text \<open>
  Walks and their cost, as networkx counts it for a multigraph: a hop from \<open>u\<close> to \<open>v\<close>
  costs the least weight among the parallel edges, and an edge without the attribute
  weighs 1. (A weight that is not a number makes the search raise; the value it is given
  here is never asked for.) \<open>min_weight_path g w u v p\<close>: \<open>p\<close> is a walk of \<open>g\<close> from
  \<open>u\<close> to \<open>v\<close> and no walk from \<open>u\<close> to \<open>v\<close> costs less. \<open>library_contract\<close> is what
  the documentation of \<open>nx.shortest_path\<close> promises of a path it returns.
\<close>

definition has_edge :: "road_graph \<Rightarrow> node \<Rightarrow> node \<Rightarrow> bool" where
  "has_edge g u v = list_ex (\<lambda>(u', v', k, d). u' = u \<and> v' = v) (g_edges g)"








definition no_path_class :: "py_exc \<Rightarrow> bool" where
  "no_path_class err \<longleftrightarrow> exc_class_of err = NetworkXNoPath \<or> exc_class_of err = NodeNotFound"

text \<open>
  \<open>raised_in_search e s origin destination err s'\<close>: in \<open>find_shortest_path\<close> the
  lookup of the origin, or then the lookup of the destination, or then the search between
  the two nodes raises \<open>err\<close>, and \<open>s'\<close> is the state at that moment.
\<close>

definition raised_in_search ::
  "env \<Rightarrow> state \<Rightarrow> pyval list \<Rightarrow> pyval list \<Rightarrow> py_exc \<Rightarrow> state \<Rightarrow> bool" where
  "raised_in_search e s origin destination err s' \<longleftrightarrow>
     get_nearest_node e s origin = (Inl err, s') \<or>
     (\<exists>u s1. get_nearest_node e s origin = (Inr u, s1) \<and>
        (get_nearest_node e s1 destination = (Inl err, s') \<or>
         (\<exists>v. get_nearest_node e s1 destination = (Inr v, s') \<and>
              nx_shortest_path e (graph s) u v ''travel_time'' = Inl err)))"

text \<open>Two states that differ at most in the memo table and the count of its searches.\<close>

definition same_but_cache :: "state \<Rightarrow> state \<Rightarrow> bool" where
  "same_but_cache s s' \<longleftrightarrow>
     graph s' = graph s \<and> last_update s' = last_update s \<and> cache_file s' = cache_file s \<and>
     place_calls s' = place_calls s \<and> bbox_calls s' = bbox_calls s \<and>
     write_calls s' = write_calls s \<and> clock_reads s' = clock_reads s"

section \<open>A small world\<close>

text \<open>
  Three nodes on a line and the edges 1 to 2 (twice) and 2 to 3. The download yields the
  edges with a list, no speed and the string \<open>"40 mph"\<close>; the interpreter of this world
  reads \<open>"40"\<close> and \<open>"50"\<close>. \<open>ex_nearest\<close> is the node at the least squared distance,
  and \<open>ex_shortest\<close> lists what a shortest-path search answers on the graphs of this world.
\<close>

definition node_xy :: "attrs \<Rightarrow> (real \<times> real) option" where
  "node_xy d = (case (map_of d ''x'', map_of d ''y'') of
                  (Some (PNum x), Some (PNum y)) \<Rightarrow> Some (x, y)
                | _ \<Rightarrow> None)"

definition ex_nearest :: "road_graph option \<Rightarrow> pyval \<Rightarrow> pyval \<Rightarrow> py_exc + node" where
  "ex_nearest go X Y =
     (case go of
        None \<Rightarrow> Inl (Exc AttributeError ''NoneType object has no attribute graph'')
      | Some g \<Rightarrow>
          (case (X, Y) of
             (PNum x, PNum y) \<Rightarrow>
               (case List.map_filter
                       (\<lambda>(n, d). map_option (\<lambda>(a, b). (n, (a - x)\<^sup>2 + (b - y)\<^sup>2)) (node_xy d))
                       (g_nodes g) of
                  [] \<Rightarrow> Inl (Exc ValueError ''graph contains no nodes'')
                | c # cs \<Rightarrow> Inr (fst (fold (\<lambda>a b. if snd a < snd b then a else b) cs c)))
           | _ \<Rightarrow> Inl (Exc TypeError ''coordinates must be numbers'')))"

definition ex_shortest :: "road_graph option \<Rightarrow> node \<Rightarrow> node \<Rightarrow> string \<Rightarrow> py_exc + node list" where
  "ex_shortest go u v w =
     (case go of
        None \<Rightarrow> Inl (Exc TypeError ''argument of type NoneType is not iterable'')
      | Some g \<Rightarrow>
          if map_of (g_nodes g) u = None \<or> map_of (g_nodes g) v = None
            then Inl (Exc NodeNotFound ''Either source or target is not in G'')
          else if u = v then Inr [u]
          else if has_edge g u v then Inr [u, v]
          else if u = 1 \<and> v = 3 \<and> has_edge g 1 2 \<and> has_edge g 2 3 then Inr [1, 2, 3]
          else Inl (Exc NetworkXNoPath ''No path between the nodes''))"

definition ex_float :: "string \<Rightarrow> real option" where
  "ex_float s = (if s = ''40'' then Some 40 else if s = ''50'' then Some 50 else None)"

definition ex_raw :: road_graph where
  "ex_raw = \<lparr>g_nodes = [(1, [(''y'', PNum 12.97), (''x'', PNum 77.59)]),
                       (2, [(''y'', PNum 12.98), (''x'', PNum 77.60)]),
                       (3, [(''y'', PNum 12.99), (''x'', PNum 77.61)])],
            g_edges = [(1, 2, 0, [(''length'', PNum 250),
                                  (''maxspeed'', PList [PStr ''50'', PStr ''30''])]),
                       (2, 3, 0, [(''length'', PNum 50)]),
                       (1, 2, 1, [(''length'', PNum 100), (''maxspeed'', PStr ''40 mph'')])]\<rparr>"

definition ex_env :: env where
  "ex_env = \<lparr>float_of_str = ex_float,
             graph_from_place = (\<lambda>q n. Inr ex_raw),
             graph_from_bbox = (\<lambda>b n. Inl (Exc OtherException ''no network'')),
             cache_write = (\<lambda>n. WriteOk),
             datetime_now = (\<lambda>n. real n),
             nearest_nodes = ex_nearest,
             nx_shortest_path = ex_shortest,
             folium_html = (\<lambda>origin cs. Inr ''<div>map</div>'')\<rparr>"

definition ex_request :: "real \<times> real \<Rightarrow> real \<times> real \<Rightarrow> py_exc + pyval" where
  "ex_request a b = Inr (PDict [(''origin'', PList [PNum (fst a), PNum (snd a)]),
                                (''destination'', PList [PNum (fst b), PNum (snd b)])])"


definition ex_annotated :: road_graph where
  "ex_annotated = ex_raw\<lparr>g_edges :=
     [(1, 2, 0, [(''length'', PNum 250), (''maxspeed'', PNum 50), (''travel_time'', PNum 18)]),
      (2, 3, 0, [(''length'', PNum 50), (''maxspeed'', PNum 30), (''travel_time'', PNum 6)]),
      (1, 2, 1, [(''length'', PNum 100), (''maxspeed'', PNum 40), (''travel_time'', PNum 9)])]\<rparr>"

definition ex_ready :: state where
  "ex_ready = \<lparr>graph = Some ex_annotated, last_update = Some 0, lru = [],
               cache_file = Some (Pickled ex_annotated), place_calls = 1, bbox_calls = 0,
               write_calls = 1, clock_reads = 1, search_calls = 0\<rparr>"

definition ex_downloaded :: state where
  "ex_downloaded = (new_service None)\<lparr>graph := Some ex_annotated,
     cache_file := Some (Pickled ex_annotated), place_calls := 1, write_calls := 1\<rparr>"

lemmas ex_defs = ex_env_def ex_raw_def ex_float_def ex_annotated_def ex_ready_def
  ex_request_def ex_nearest_def ex_shortest_def node_xy_def has_edge_def new_service_def

lemmas model_defs = get_nearest_node_def find_shortest_path_def create_route_map_def
  shortest_path_try_def shortest_path_def path_sum_def edge_float_def edge_attr_def
  node_attr_def dict_get_def key_error_def catch_no_path_def lru_hit_def lru_insert_def
  maxsize_def request_points_def List.map_filter_def

lemmas download_defs = load_graph_def should_update_graph_def load_or_download_def stamp_def
  graph_truthy_def update_interval_def download_and_cache_graph_def download_by_place_def
  download_using_bbox_def annotate_and_cache_def write_cache_def annotate_edge_def
  set_default_speed_def norm_list_speed_def norm_str_speed_def set_travel_time_def
  travel_time_of_def py_split_def py_isspace_def Let_def

text \<open>
  Worlds that go wrong. In the first the download by place yields, the first time, a graph
  with the speed \<open>"signals"\<close>, which \<open>float\<close> rejects, and the graph above afterwards;
  in the second no download succeeds; in the third the cache file cannot be written.
\<close>

definition ex_old_raw :: road_graph where
  "ex_old_raw = \<lparr>g_nodes = take 2 (g_nodes ex_raw),
                  g_edges = [(1, 2, 0, [(''length'', PNum 100), (''maxspeed'', PStr ''signals'')])]\<rparr>"

definition ex_env_stale :: env where
  "ex_env_stale = ex_env\<lparr>graph_from_place := (\<lambda>q n. if n = 0 then Inr ex_old_raw else Inr ex_raw)\<rparr>"


definition ex_degraded :: state where
  "ex_degraded = (new_service None)\<lparr>graph := Some ex_old_raw, place_calls := 1, bbox_calls := 1\<rparr>"

definition ex_env_down :: env where
  "ex_env_down = ex_env\<lparr>graph_from_place := (\<lambda>q n. Inl (Exc OtherException ''no network''))\<rparr>"

definition ex_env_dumpfail :: env where
  "ex_env_dumpfail = ex_env\<lparr>cache_write := (\<lambda>n. DumpFails)\<rparr>"

definition ex_unsaved :: state where
  "ex_unsaved = (new_service None)\<lparr>graph := Some ex_annotated, cache_file := Some Corrupt,
     place_calls := 1, bbox_calls := 1, write_calls := 1\<rparr>"

definition ex_cached :: state where
  "ex_cached = ex_degraded\<lparr>lru := [((PNum 12.98, PNum 77.6), 2), ((PNum 12.99, PNum 77.61), 2)],
                            search_calls := 2\<rparr>"

definition ex_stale :: state where
  "ex_stale = \<lparr>graph = Some ex_annotated, last_update = Some 0,
               lru = [((PNum 12.98, PNum 77.6), 2), ((PNum 12.99, PNum 77.61), 2)],
               cache_file = Some (Pickled ex_annotated), place_calls = 2, bbox_calls = 1,
               write_calls = 1, clock_reads = 1, search_calls = 2\<rparr>"

lemmas ex_defs2 = ex_old_raw_def ex_env_stale_def ex_degraded_def ex_env_down_def
  ex_env_dumpfail_def ex_unsaved_def ex_cached_def ex_stale_def

text \<open>
  Two more worlds. In one the cache file holds a graph with no node. In the other the first
  download yields the graph above but the file cannot be opened for writing, and the next
  download yields the same roads without node 3.
\<close>

definition ex_empty :: road_graph where
  "ex_empty = \<lparr>g_nodes = [], g_edges = []\<rparr>"

definition ex_hollow :: state where
  "ex_hollow = (new_service (Some (Pickled ex_empty)))\<lparr>graph := Some ex_empty,
     last_update := Some 0, clock_reads := 1\<rparr>"

definition ex_small_raw :: road_graph where
  "ex_small_raw = \<lparr>g_nodes = take 2 (g_nodes ex_raw),
                    g_edges = [(1, 2, 0, [(''length'', PNum 250),
                                          (''maxspeed'', PList [PStr ''50'', PStr ''30''])]),
                               (1, 2, 1, [(''length'', PNum 100), (''maxspeed'', PStr ''40 mph'')])]\<rparr>"

definition ex_small :: road_graph where
  "ex_small = ex_small_raw\<lparr>g_edges :=
     [(1, 2, 0, [(''length'', PNum 250), (''maxspeed'', PNum 50), (''travel_time'', PNum 18)]),
      (1, 2, 1, [(''length'', PNum 100), (''maxspeed'', PNum 40), (''travel_time'', PNum 9)])]\<rparr>"

definition ex_env_swap :: env where
  "ex_env_swap = ex_env\<lparr>graph_from_place := (\<lambda>q n. if n = 0 then Inr ex_raw else Inr ex_small_raw),
                         cache_write := (\<lambda>n. if n = 0 then OpenFails else WriteOk)\<rparr>"

definition ex_unwritten :: state where
  "ex_unwritten = (new_service None)\<lparr>graph := Some ex_annotated, place_calls := 1,
     bbox_calls := 1, write_calls := 1\<rparr>"

definition ex_seen :: state where
  "ex_seen = ex_unwritten\<lparr>lru := [((PNum 12.99, PNum 77.61), 3)], search_calls := 1\<rparr>"

definition ex_refreshed :: state where
  "ex_refreshed = \<lparr>graph = Some ex_small, last_update = Some 0,
     lru = [((PNum 12.99, PNum 77.61), 3)], cache_file = Some (Pickled ex_small),
     place_calls = 2, bbox_calls = 1, write_calls = 2, clock_reads = 1, search_calls = 1\<rparr>"

lemmas ex_defs3 = ex_empty_def ex_hollow_def ex_small_raw_def ex_small_def ex_env_swap_def
  ex_unwritten_def ex_seen_def ex_refreshed_def

section \<open>Speed and travel time of the edges\<close>

lemma split_ws_head:
  "split_ws cur s = t # ts \<Longrightarrow>
     t = (if cur = [] then leading_token s else rev cur @ takeWhile (\<lambda>c. \<not> py_isspace c) s)"
proof (induction s arbitrary: cur)
  case Nil
  then show ?case by (auto simp: leading_token_def split: if_splits)
next
  case (Cons c cs)
  show ?case
  proof (cases "py_isspace c")
    case True
    show ?thesis
    proof (cases "cur = []")
      case e: True
      with True Cons.prems have "split_ws [] cs = t # ts" by simp
      from Cons.IH[OF this] True e show ?thesis by (simp add: leading_token_def)
    next
      case ne: False
      with True Cons.prems show ?thesis by simp
    qed
  next
    case False
    with Cons.prems have "split_ws (c # cur) cs = t # ts" by simp
    from Cons.IH[OF this] False show ?thesis by (auto simp: leading_token_def)
  qed
qed

lemma py_split_head: "py_split s = t # ts \<Longrightarrow> t = leading_token s"
  unfolding py_split_def using split_ws_head[of "[]" s t ts] by simp


lemma set_default_speed_map:
  "map_of (set_default_speed d) =
     (if map_of d ''maxspeed'' = None then (map_of d)(''maxspeed'' \<mapsto> PNum 30) else map_of d)"
  by (simp add: set_default_speed_def update_conv')

lemma norm_list_speed_Inr:
  assumes "norm_list_speed e d = Inr d2"
  shows "(\<forall>xs. map_of d ''maxspeed'' = Some (PList xs) \<longrightarrow>
            (\<exists>r. xs \<noteq> [] \<and> py_float e (hd xs) = Inr r \<and>
                 map_of d2 = (map_of d)(''maxspeed'' \<mapsto> PNum r))) \<and>
         ((\<forall>xs. map_of d ''maxspeed'' \<noteq> Some (PList xs)) \<longrightarrow> d2 = d)"
  using assms
  by (auto simp: norm_list_speed_def update_conv'
           split: option.splits pyval.splits list.splits sum.splits)

lemma norm_str_speed_Inr:
  assumes "norm_str_speed e d = Inr d3"
  shows "(\<forall>str. map_of d ''maxspeed'' = Some (PStr str) \<longrightarrow>
            (\<exists>r. float_of_str e (leading_token str) = Some r \<and>
                 map_of d3 = (map_of d)(''maxspeed'' \<mapsto> PNum r))) \<and>
         ((\<forall>str. map_of d ''maxspeed'' \<noteq> Some (PStr str)) \<longrightarrow> d3 = d)"
  using assms
  by (auto simp: norm_str_speed_def update_conv' dest!: py_split_head
           split: option.splits pyval.splits list.splits sum.splits)

lemma set_travel_time_None:
  assumes "set_travel_time e d = (None, d')"
  shows "\<exists>lv len sv speed.
           map_of d ''length'' = Some lv \<and> py_float e lv = Inr len \<and>
           map_of d ''maxspeed'' = Some sv \<and> py_float e sv = Inr speed \<and> speed \<noteq> 0 \<and>
           map_of d' = (map_of d)(''travel_time'' \<mapsto> PNum (len / (speed * 1000 / 3600)))"
  using assms
  by (auto simp: set_travel_time_def dict_get_def travel_time_of_def update_conv'
           split: option.splits sum.splits if_splits)

lemma annotate_edge_None:
  assumes "annotate_edge e d = (None, d')"
  shows "edge_annotated e d d'"
proof -
  let ?d1 = "set_default_speed d"
  from assms obtain d2 d3 where
    l: "norm_list_speed e ?d1 = Inr d2" and
    s: "norm_str_speed e d2 = Inr d3" and
    t: "set_travel_time e d3 = (None, d')"
    by (auto simp: annotate_edge_def Let_def split: sum.splits)
  note L = norm_list_speed_Inr[OF l] and S = norm_str_speed_Inr[OF s]
    and T = set_travel_time_None[OF t] and D = set_default_speed_map[of d]
  have m3: "map_of d3 ''maxspeed'' \<noteq> None \<and>
      (map_of d ''maxspeed'' = None \<longrightarrow> map_of d3 = (map_of d)(''maxspeed'' \<mapsto> PNum 30)) \<and>
      (\<forall>xs. map_of d ''maxspeed'' = Some (PList xs) \<longrightarrow>
        (\<exists>r. xs \<noteq> [] \<and> py_float e (hd xs) = Inr r \<and> map_of d3 = (map_of d)(''maxspeed'' \<mapsto> PNum r))) \<and>
      (\<forall>str. map_of d ''maxspeed'' = Some (PStr str) \<longrightarrow>
        (\<exists>r. float_of_str e (leading_token str) = Some r \<and> map_of d3 = (map_of d)(''maxspeed'' \<mapsto> PNum r))) \<and>
      (\<forall>k. k \<noteq> ''maxspeed'' \<longrightarrow> map_of d3 k = map_of d k)"
  proof (cases "map_of d ''maxspeed''")
    case None
    with D have d1: "map_of ?d1 = (map_of d)(''maxspeed'' \<mapsto> PNum 30)" by simp
    with L have "d2 = ?d1" by simp
    with S d1 have "d3 = ?d1" by simp
    with d1 None show ?thesis by simp
  next
    case (Some v)
    with D have d1: "map_of ?d1 = map_of d" by simp
    show ?thesis
    proof (cases v)
      case (PList xs)
      with Some d1 L obtain r where r: "xs \<noteq> []" "py_float e (hd xs) = Inr r"
        "map_of d2 = (map_of d)(''maxspeed'' \<mapsto> PNum r)" by auto
      with S have "d3 = d2" by simp
      with r Some PList show ?thesis by simp
    next
      case (PStr str)
      with Some d1 L have "d2 = ?d1" by simp
      with Some d1 PStr S obtain r where "float_of_str e (leading_token str) = Some r"
        "map_of d3 = (map_of d)(''maxspeed'' \<mapsto> PNum r)" by auto
      with Some PStr show ?thesis by simp
    qed (use Some d1 L S in auto)
  qed
  from T obtain lv len sv speed where
    T': "map_of d3 ''length'' = Some lv" "py_float e lv = Inr len"
        "map_of d3 ''maxspeed'' = Some sv" "py_float e sv = Inr speed" "speed \<noteq> 0"
        "map_of d' = (map_of d3)(''travel_time'' \<mapsto> PNum (len / (speed * 1000 / 3600)))"
    by blast
  have keep: "map_of d' ''maxspeed'' = map_of d3 ''maxspeed''" "map_of d' ''length'' = map_of d3 ''length''"
    using T'(6) by simp_all
  show ?thesis
    unfolding edge_annotated_def
  proof (intro conjI allI impI)
    assume "map_of d ''maxspeed'' = None"
    with m3 keep show "map_of d' ''maxspeed'' = Some (PNum 30)" by simp
  next
    fix xs assume "map_of d ''maxspeed'' = Some (PList xs)"
    with m3 obtain r where "xs \<noteq> []" "py_float e (hd xs) = Inr r"
      "map_of d3 = (map_of d)(''maxspeed'' \<mapsto> PNum r)" by blast
    with keep show "\<exists>r. xs \<noteq> [] \<and> py_float e (hd xs) = Inr r \<and>
        map_of d' ''maxspeed'' = Some (PNum r)" by simp
  next
    fix str assume "map_of d ''maxspeed'' = Some (PStr str)"
    with m3 obtain r where "float_of_str e (leading_token str) = Some r"
      "map_of d3 = (map_of d)(''maxspeed'' \<mapsto> PNum r)" by blast
    with keep show "\<exists>r. float_of_str e (leading_token str) = Some r \<and>
        map_of d' ''maxspeed'' = Some (PNum r)" by simp
  next
    from T' keep show "\<exists>lv len sv speed.
        map_of d' ''length'' = Some lv \<and> py_float e lv = Inr len \<and>
        map_of d' ''maxspeed'' = Some sv \<and> py_float e sv = Inr speed \<and> speed \<noteq> 0 \<and>
        map_of d' ''travel_time'' = Some (PNum (len / (speed * 1000 / 3600)))"
      by simp
  next
    fix k assume "k \<noteq> ''maxspeed'' \<and> k \<noteq> ''travel_time''"
    with m3 T'(6) show "map_of d' k = map_of d k" by simp
  qed
qed

lemma annotate_edges_None:
  "annotate_edges e es = (None, es') \<Longrightarrow> list_all2 (edge_rel e) es es'"
proof (induction es arbitrary: es')
  case Nil
  then show ?case by simp
next
  case (Cons a es)
  obtain u v k d where a: "a = (u, v, k, d)" by (cases a) auto
  from Cons.prems a obtain d' es'' where
    "annotate_edge e d = (None, d')" "annotate_edges e es = (None, es'')"
    "es' = (u, v, k, d') # es''"
    by (auto split: prod.splits option.splits)
  with Cons.IH a show ?case
    by (simp add: edge_rel_def annotate_edge_None)
qed


lemma annotate_and_cache_None:
  assumes "annotate_and_cache e g s = (None, s')"
  shows "\<exists>es'. annotate_edges e (g_edges g) = (None, es') \<and>
           s' = s\<lparr>graph := Some (g\<lparr>g_edges := es'\<rparr>),
                  write_calls := Suc (write_calls s),
                  cache_file := Some (Pickled (g\<lparr>g_edges := es'\<rparr>))\<rparr> \<and>
           cache_write e (write_calls s) = WriteOk"
  using assms
  by (auto simp: annotate_and_cache_def write_cache_def Let_def
           split: prod.splits option.splits write_outcome.splits)

lemma download_by_place_None:
  assumes "download_by_place e s = (None, s')"
  shows "\<exists>g es'. graph_from_place e place_query (place_calls s) = Inr g \<and>
           annotate_edges e (g_edges g) = (None, es') \<and>
           graph s' = Some (g\<lparr>g_edges := es'\<rparr>) \<and>
           cache_file s' = Some (Pickled (g\<lparr>g_edges := es'\<rparr>))"
  using assms
  by (auto simp: download_by_place_def Let_def split: sum.splits
           dest!: annotate_and_cache_None)

lemma download_by_place_bbox_calls:
  "bbox_calls (snd (download_by_place e s)) = bbox_calls s"
  by (auto simp: download_by_place_def annotate_and_cache_def write_cache_def Let_def
           split: sum.splits prod.splits option.splits write_outcome.splits)

lemma download_using_bbox_None:
  assumes "download_using_bbox e s = (None, s')"
  shows "\<exists>g es'. graph_from_bbox e bbox (bbox_calls s) = Inr g \<and>
           annotate_edges e (g_edges g) = (None, es') \<and>
           graph s' = Some (g\<lparr>g_edges := es'\<rparr>) \<and>
           cache_file s' = Some (Pickled (g\<lparr>g_edges := es'\<rparr>))"
  using assms
  by (auto simp: download_using_bbox_def Let_def split: sum.splits
           dest!: annotate_and_cache_None)

lemma download_and_cache_graph_None:
  assumes "download_and_cache_graph e s = (None, s')"
  shows "\<exists>g es'. (graph_from_place e place_query (place_calls s) = Inr g \<or>
                   graph_from_bbox e bbox (bbox_calls s) = Inr g) \<and>
           annotate_edges e (g_edges g) = (None, es') \<and>
           graph s' = Some (g\<lparr>g_edges := es'\<rparr>) \<and>
           cache_file s' = Some (Pickled (g\<lparr>g_edges := es'\<rparr>))"
proof (cases "download_by_place e s")
  case (Pair r s1)
  show ?thesis
  proof (cases r)
    case None
    with Pair assms have "s' = s1" by (simp add: download_and_cache_graph_def)
    with Pair None download_by_place_None[of e s s'] show ?thesis by blast
  next
    case (Some err)
    with Pair assms have b: "download_using_bbox e s1 = (None, s')"
      by (simp add: download_and_cache_graph_def)
    from Pair download_by_place_bbox_calls[of e s] have "bbox_calls s1 = bbox_calls s" by simp
    with download_using_bbox_None[OF b] show ?thesis by auto
  qed
qed

text \<open>
  C1. After a download that succeeds, by place or by bounding box, the graph in memory is
  the downloaded graph with every edge annotated: the speed is 30 where the edge had none,
  the number of the first element where it was a list, the number of the leading token
  where it was a string (\<open>"40 mph"\<close> gives 40), and \<open>travel_time\<close> is
  \<open>length / (speed * 1000 / 3600)\<close>.
\<close>

theorem edges_annotated_after_download:
  assumes "download_and_cache_graph e s = (None, s')"
  shows "\<exists>g0 g'. (graph_from_place e place_query (place_calls s) = Inr g0 \<or>
                   graph_from_bbox e bbox (bbox_calls s) = Inr g0) \<and>
           graph s' = Some g' \<and> g_nodes g' = g_nodes g0 \<and>
           list_all2 (edge_rel e) (g_edges g0) (g_edges g')"
proof -
  from download_and_cache_graph_None[OF assms] obtain g es' where
    "graph_from_place e place_query (place_calls s) = Inr g \<or>
     graph_from_bbox e bbox (bbox_calls s) = Inr g"
    "annotate_edges e (g_edges g) = (None, es')"
    "graph s' = Some (g\<lparr>g_edges := es'\<rparr>)" by blast
  then show ?thesis
    by (intro exI[of _ g] exI[of _ "g\<lparr>g_edges := es'\<rparr>"]) (simp add: annotate_edges_None)
qed

theorem edges_annotated_after_download_witness:
  "download_and_cache_graph ex_env (new_service None) = (None, ex_downloaded) \<and>
   (\<exists>g0 g'. (graph_from_place ex_env place_query (place_calls (new_service None)) = Inr g0 \<or>
              graph_from_bbox ex_env bbox (bbox_calls (new_service None)) = Inr g0) \<and>
       graph ex_downloaded = Some g' \<and> g_nodes g' = g_nodes g0 \<and>
       list_all2 (edge_rel ex_env) (g_edges g0) (g_edges g'))"
proof -
  have h: "download_and_cache_graph ex_env (new_service None) = (None, ex_downloaded)"
    by (simp add: download_defs dict_get_def ex_defs ex_downloaded_def)
  from edges_annotated_after_download[OF h] h show ?thesis by simp
qed

section \<open>What a request leaves untouched\<close>

lemma same_but_cache_refl: "same_but_cache s s"
  by (simp add: same_but_cache_def)

lemma same_but_cache_trans:
  "same_but_cache s s1 \<Longrightarrow> same_but_cache s1 s2 \<Longrightarrow> same_but_cache s s2"
  by (simp add: same_but_cache_def)

lemma same_but_cache_update:
  "same_but_cache s s' \<Longrightarrow> s' = s\<lparr>lru := lru s', search_calls := search_calls s'\<rparr>"
  by (simp add: same_but_cache_def)

lemma get_nearest_node_frame:
  "get_nearest_node e s args = (r, s') \<Longrightarrow> same_but_cache s s'"
  unfolding get_nearest_node_def Let_def same_but_cache_def
  by (auto split: if_splits list.splits option.splits sum.splits)

lemma find_shortest_path_frame:
  assumes "find_shortest_path e s origin destination = (r, s')"
  shows "same_but_cache s s'"
proof -
  obtain r1 s1 where l1: "get_nearest_node e s origin = (r1, s1)" by (cases "get_nearest_node e s origin")
  obtain r2 s2 where l2: "get_nearest_node e s1 destination = (r2, s2)"
    by (cases "get_nearest_node e s1 destination")
  note f1 = get_nearest_node_frame[OF l1] and f2 = get_nearest_node_frame[OF l2]
  from assms l1 l2 have "s' = s1 \<or> s' = s2"
    by (auto simp: find_shortest_path_def split: sum.splits)
  with f1 f2 show ?thesis by (auto intro: same_but_cache_trans)
qed

lemma shortest_path_try_frame:
  assumes "shortest_path_try e s req = (r, s')"
  shows "same_but_cache s s'"
proof -
  have "s' = s \<or> (\<exists>origin destination r1. find_shortest_path e s origin destination = (r1, s'))"
    using assms unfolding shortest_path_try_def
    by (auto split: sum.splits prod.splits option.splits if_splits)
  then show ?thesis
    by (auto intro: same_but_cache_refl find_shortest_path_frame)
qed

lemma shortest_path_frame:
  "shortest_path e s req = (r, s') \<Longrightarrow> same_but_cache s s'"
  by (auto simp: shortest_path_def split: prod.splits sum.splits dest: shortest_path_try_frame)

lemma run_requests_frame:
  "Refresh \<notin> set evs \<Longrightarrow> same_but_cache s (run e s evs)"
proof (induction evs arbitrary: s)
  case Nil
  then show ?case by (simp add: same_but_cache_refl)
next
  case (Cons ev evs)
  then obtain req where ev: "ev = Request req" by (cases ev) auto
  obtain r s1 where h: "shortest_path e s req = (r, s1)" by (cases "shortest_path e s req")
  from shortest_path_frame[OF h] have "same_but_cache s s1" .
  moreover from Cons have "same_but_cache s1 (run e s1 evs)" by simp
  ultimately show ?case using ev h by (auto intro: same_but_cache_trans)
qed

text \<open>
  C10. A request to \<open>/shortest-path\<close> changes neither the graph, nor the time of the last
  update, nor the cache file: the state after it is the state before it, but for the memo
  table of \<open>get_nearest_node\<close> and the count of its searches. So a run in which one of
  the three changes holds a call of \<open>load_graph\<close>.
\<close>

theorem request_changes_only_the_memo_table:
  "(\<exists>c n. snd (shortest_path e s req) = s\<lparr>lru := c, search_calls := n\<rparr>) \<and>
   (Refresh \<notin> set evs \<longrightarrow>
      graph (run e s evs) = graph s \<and> last_update (run e s evs) = last_update s \<and>
      cache_file (run e s evs) = cache_file s)"
proof -
  obtain r s' where h: "shortest_path e s req = (r, s')" by (cases "shortest_path e s req")
  from same_but_cache_update[OF shortest_path_frame[OF h]]
  have "\<exists>c n. s' = s\<lparr>lru := c, search_calls := n\<rparr>" by blast
  with h run_requests_frame[of evs s e] show ?thesis by (auto simp: same_but_cache_def)
qed

theorem request_changes_only_the_memo_table_witness:
  "Refresh \<notin> set [Request (ex_request (12.97, 77.59) (12.99, 77.61)),
                     Request (ex_request (12.98, 77.60) (12.98, 77.60))] \<and>
   graph (run ex_env ex_ready [Request (ex_request (12.97, 77.59) (12.99, 77.61)),
                               Request (ex_request (12.98, 77.60) (12.98, 77.60))]) = graph ex_ready \<and>
   last_update (run ex_env ex_ready [Request (ex_request (12.97, 77.59) (12.99, 77.61)),
                               Request (ex_request (12.98, 77.60) (12.98, 77.60))]) = last_update ex_ready \<and>
   cache_file (run ex_env ex_ready [Request (ex_request (12.97, 77.59) (12.99, 77.61)),
                               Request (ex_request (12.98, 77.60) (12.98, 77.60))]) = cache_file ex_ready"
proof -
  have h: "Refresh \<notin> set [Request (ex_request (12.97, 77.59) (12.99, 77.61)),
                     Request (ex_request (12.98, 77.60) (12.98, 77.60))]" by simp
  from request_changes_only_the_memo_table[of ex_env ex_ready _
      "[Request (ex_request (12.97, 77.59) (12.99, 77.61)),
        Request (ex_request (12.98, 77.60) (12.98, 77.60))]"] h
  show ?thesis by blast
qed

section \<open>The memo table\<close>

lemma lookup_Inr_args:
  "get_nearest_node e s args = (Inr n, s1) \<Longrightarrow>
     \<exists>lat lng. args = [lat, lng] \<and> hashable lat \<and> hashable lng \<and>
        map_of (lru s1) (hash_key lat, hash_key lng) = Some n \<and>
        (map_of (lru s) (hash_key lat, hash_key lng) = None \<longrightarrow>
           nearest_nodes e (graph s) lng lat = Inr n \<and> search_calls s1 = Suc (search_calls s)) \<and>
        (map_of (lru s) (hash_key lat, hash_key lng) \<noteq> None \<longrightarrow>
           map_of (lru s) (hash_key lat, hash_key lng) = Some n \<and> search_calls s1 = search_calls s)"
  unfolding get_nearest_node_def Let_def
  by (auto simp: lru_hit_def lru_insert_def split: if_splits list.splits option.splits sum.splits)

lemma lookup_hit:
  "hashable lat \<Longrightarrow> hashable lng \<Longrightarrow> map_of (lru s) (hash_key lat, hash_key lng) = Some n \<Longrightarrow>
     get_nearest_node e s [lat, lng] =
       (Inr n, s\<lparr>lru := lru_hit (hash_key lat, hash_key lng) n (lru s)\<rparr>)"
  by (simp add: get_nearest_node_def Let_def)

lemma lookup_twice:
  assumes "get_nearest_node e s args = (Inr n, s1)" and "lru s1' = lru s1"
  shows "\<exists>s2. get_nearest_node e s1' args = (Inr n, s2) \<and> search_calls s2 = search_calls s1' \<and>
              graph s2 = graph s1'"
proof -
  from lookup_Inr_args[OF assms(1)] obtain lat lng where
    a: "args = [lat, lng]" "hashable lat" "hashable lng"
       "map_of (lru s1) (hash_key lat, hash_key lng) = Some n" by blast
  with assms(2) have "map_of (lru s1') (hash_key lat, hash_key lng) = Some n" by simp
  from lookup_hit[OF a(2) a(3) this, of e] a(1) show ?thesis by simp
qed

lemma write_cache_lru: "lru (snd (write_cache e g s)) = lru s \<and> search_calls (snd (write_cache e g s)) = search_calls s"
  by (simp add: write_cache_def Let_def split: write_outcome.splits)

lemma annotate_and_cache_lru:
  "lru (snd (annotate_and_cache e g s)) = lru s \<and> search_calls (snd (annotate_and_cache e g s)) = search_calls s"
  by (simp add: annotate_and_cache_def write_cache_lru split: prod.splits option.splits)

lemma download_by_place_lru:
  "lru (snd (download_by_place e s)) = lru s \<and> search_calls (snd (download_by_place e s)) = search_calls s"
  by (simp add: download_by_place_def Let_def annotate_and_cache_lru split: sum.splits)

lemma download_using_bbox_lru:
  "lru (snd (download_using_bbox e s)) = lru s \<and> search_calls (snd (download_using_bbox e s)) = search_calls s"
  by (simp add: download_using_bbox_def Let_def annotate_and_cache_lru split: sum.splits)

lemma download_and_cache_graph_lru:
  "lru (snd (download_and_cache_graph e s)) = lru s \<and>
   search_calls (snd (download_and_cache_graph e s)) = search_calls s"
proof (cases "download_by_place e s")
  case (Pair r s1)
  with download_by_place_lru[of e s] have "lru s1 = lru s \<and> search_calls s1 = search_calls s" by simp
  with Pair download_using_bbox_lru[of e s1] show ?thesis
    by (cases r) (simp_all add: download_and_cache_graph_def)
qed

lemma should_update_graph_lru:
  "lru (snd (should_update_graph e s)) = lru s \<and>
   search_calls (snd (should_update_graph e s)) = search_calls s"
  by (simp add: should_update_graph_def split: option.splits)

lemma load_or_download_lru:
  "lru (snd (load_or_download e s)) = lru s \<and> search_calls (snd (load_or_download e s)) = search_calls s"
proof (cases "download_and_cache_graph e s")
  case (Pair r s1)
  with download_and_cache_graph_lru[of e s] have "lru s1 = lru s \<and> search_calls s1 = search_calls s" by simp
  with Pair show ?thesis
    by (cases r) (simp_all add: load_or_download_def stamp_def split: option.splits pickle_file.splits)
qed

lemma load_graph_lru:
  "lru (snd (load_graph e s)) = lru s \<and> search_calls (snd (load_graph e s)) = search_calls s"
proof -
  obtain b s1 where u: "should_update_graph e s = (b, s1)" by (cases "should_update_graph e s")
  with should_update_graph_lru[of e s] have l1: "lru s1 = lru s \<and> search_calls s1 = search_calls s" by simp
  obtain r s2 where l: "load_or_download e s1 = (r, s2)" by (cases "load_or_download e s1")
  with load_or_download_lru[of e s1] l1 have l2: "lru s2 = lru s \<and> search_calls s2 = search_calls s" by simp
  from download_and_cache_graph_lru[of e s2] l2
  have l3: "lru (snd (download_and_cache_graph e s2)) = lru s \<and>
            search_calls (snd (download_and_cache_graph e s2)) = search_calls s" by simp
  from u l l1 l2 l3 show ?thesis
    by (cases b; cases r) (simp_all add: load_graph_def)
qed

lemma lru_hit_length:
  assumes "map_of c k = Some n"
  shows "length (lru_hit k n c) \<le> length c"
proof -
  from assms have "(k, n) \<in> set c" by (rule map_of_SomeD)
  then have "length (filter (\<lambda>p. fst p \<noteq> k) c) < length c"
    by (intro length_filter_less[of "(k, n)"]) simp_all
  then show ?thesis by (simp add: lru_hit_def)
qed

lemma lru_insert_length: "length c \<le> maxsize \<Longrightarrow> length (lru_insert k n c) \<le> maxsize"
  by (simp add: lru_insert_def maxsize_def)

lemma lookup_table_bound:
  assumes "get_nearest_node e s args = (r, s1)" and "length (lru s) \<le> 1000"
  shows "length (lru s1) \<le> 1000"
  using assms lru_insert_length[of "lru s"]
  unfolding get_nearest_node_def Let_def
  by (auto simp: maxsize_def split: if_splits list.splits option.splits sum.splits
           dest!: lru_hit_length intro: order_trans)


text \<open>
  C9. After \<open>get_nearest_node(lat, lng)\<close> has returned a node, a second call with the same
  pair returns the same node and runs no search, in any state that holds the same table,
  whatever its graph. \<open>load_graph\<close> leaves the table as it is, so the state after a refresh
  is such a state; and the node of a first call that missed is the nearest node of the
  graph of that call. A table of at most 1000 entries stays so.
\<close>

theorem repeated_lookup_is_a_cache_hit:
  assumes "get_nearest_node e s [lat, lng] = (Inr n, s1)" and "lru (s1' :: state) = lru s1"
  shows "(\<exists>s2. get_nearest_node e s1' [lat, lng] = (Inr n, s2) \<and>
               search_calls s2 = search_calls s1') \<and>
         lru (snd (load_graph e' s1)) = lru s1 \<and>
         (map_of (lru s) (hash_key lat, hash_key lng) = None \<longrightarrow>
            nearest_nodes e (graph s) lng lat = Inr n) \<and>
         (length (lru s) \<le> 1000 \<longrightarrow> length (lru s1) \<le> 1000)"
proof (intro conjI impI)
  from lookup_twice[OF assms]
  show "\<exists>s2. get_nearest_node e s1' [lat, lng] = (Inr n, s2) \<and> search_calls s2 = search_calls s1'"
    by blast
next
  show "lru (snd (load_graph e' s1)) = lru s1" by (simp add: load_graph_lru)
next
  assume "map_of (lru s) (hash_key lat, hash_key lng) = None"
  with lookup_Inr_args[OF assms(1)] show "nearest_nodes e (graph s) lng lat = Inr n" by auto
next
  assume "length (lru s) \<le> 1000"
  with assms(1) show "length (lru s1) \<le> 1000" by (rule lookup_table_bound)
qed

theorem repeated_lookup_is_a_cache_hit_witness:
  "get_nearest_node ex_env ex_ready [PNum 12.99, PNum 77.61] =
     (Inr 3, ex_ready\<lparr>lru := [((PNum 12.99, PNum 77.61), 3)], search_calls := 1\<rparr>) \<and>
   (\<exists>s2. get_nearest_node ex_env
            (ex_ready\<lparr>lru := [((PNum 12.99, PNum 77.61), 3)], search_calls := 1,
                       graph := Some (ex_annotated\<lparr>g_nodes := take 2 (g_nodes ex_annotated)\<rparr>)\<rparr>)
            [PNum 12.99, PNum 77.61] = (Inr 3, s2) \<and> search_calls s2 = 1) \<and>
   nearest_nodes ex_env (Some (ex_annotated\<lparr>g_nodes := take 2 (g_nodes ex_annotated)\<rparr>))
     (PNum 77.61) (PNum 12.99) = Inr 2"
proof -
  let ?s1 = "ex_ready\<lparr>lru := [((PNum 12.99, PNum 77.61), 3)], search_calls := 1\<rparr>"
  let ?s1' = "?s1\<lparr>graph := Some (ex_annotated\<lparr>g_nodes := take 2 (g_nodes ex_annotated)\<rparr>)\<rparr>"
  have h: "get_nearest_node ex_env ex_ready [PNum 12.99, PNum 77.61] = (Inr 3, ?s1)"
    by (simp add: ex_defs model_defs)
  have l: "lru ?s1' = lru ?s1" by simp
  have n: "nearest_nodes ex_env (Some (ex_annotated\<lparr>g_nodes := take 2 (g_nodes ex_annotated)\<rparr>))
     (PNum 77.61) (PNum 12.99) = Inr 2"
    by code_simp
  from repeated_lookup_is_a_cache_hit[OF h l] h n show ?thesis by simp
qed

section \<open>The answers of the handler\<close>

lemma sum_over_Inr:
  "sum_over f js = Inr t \<Longrightarrow> \<exists>ls. map f js = map Inr ls \<and> t = sum_list ls"
proof (induction js arbitrary: t)
  case Nil
  then show ?case by simp
next
  case (Cons i js)
  from Cons.prems obtain x y where x: "f i = Inr x" and y: "sum_over f js = Inr y" and t: "t = x + y"
    by (auto split: sum.splits)
  from Cons.IH[OF y] obtain ls where "map f js = map Inr ls" "y = sum_list ls" by blast
  with x t have "map f (i # js) = map Inr (x # ls) \<and> t = sum_list (x # ls)" by simp
  then show ?case by blast
qed

lemma zip_tl_indices:
  "zip path (tl path) = map (\<lambda>i. (path ! i, path ! (i + 1))) [0 ..< length path - 1]"
  by (rule nth_equalityI) (auto simp: nth_tl)

lemma path_sum_Inr:
  assumes "path_sum e go path a = Inr t"
  shows "\<exists>ls. map (\<lambda>(u, v). edge_float e go u v a) (zip path (tl path)) = map Inr ls \<and>
              t = sum_list ls"
proof -
  from sum_over_Inr[OF assms[unfolded path_sum_def]] obtain ls where
    "map (\<lambda>i. edge_float e go (path ! i) (path ! (i + 1)) a) [0 ..< length path - 1] = map Inr ls"
    "t = sum_list ls" by blast
  then show ?thesis by (auto simp: zip_tl_indices comp_def)
qed

lemma shortest_path_200:
  assumes "shortest_path e s req = ((200, b), s')"
  shows "\<exists>origin destination path html cs d t.
           request_points req = Some (origin, destination) \<and>
           find_shortest_path e s origin destination = (Inr (Some path), s') \<and> path \<noteq> [] \<and>
           create_route_map e s' origin path = Some (html, cs) \<and> html \<noteq> [] \<and>
           path_sum e (graph s') path ''length'' = Inr d \<and>
           path_sum e (graph s') path ''travel_time'' = Inr t \<and>
           b = RouteBody cs d t"
  using assms
  by (auto simp: shortest_path_def shortest_path_try_def request_points_def
           split: sum.splits prod.splits option.splits if_splits)


lemma map_Inr_list_all2:
  "map f xs = map Inr ls \<Longrightarrow> list_all2 (\<lambda>a l. f a = Inr l) xs ls"
  by (induction xs arbitrary: ls) auto

lemma path_sum_index0:
  assumes "path_sum e go path a = Inr t"
  shows "\<exists>ls. index0_values e go a path ls \<and> t = sum_list ls"
proof -
  from path_sum_Inr[OF assms] obtain ls where
    m: "map (\<lambda>(u, v). edge_float e go u v a) (zip path (tl path)) = map Inr ls"
    and t: "t = sum_list ls" by blast
  from map_Inr_list_all2[OF m]
  have "list_all2 (\<lambda>p l. (case p of (u, v) \<Rightarrow> edge_float e go u v a) = Inr l) (zip path (tl path)) ls" .
  then have "index0_values e go a path ls"
    unfolding index0_values_def
    by (rule list_all2_mono) (auto simp: edge_float_def split: sum.splits)
  with t show ?thesis by blast
qed

text \<open>
  C2. In the answer 200 of a request, \<open>total_distance\<close> is the sum, over the consecutive
  pairs of nodes of the path \<open>find_shortest_path\<close> returned, of the \<open>length\<close> of the
  parallel edge with key 0, and \<open>estimated_time\<close> is the same sum of \<open>travel_time\<close>.
\<close>

theorem stats_sum_index0_edges:
  assumes "shortest_path e s req = ((200, RouteBody cs d t), s')"
  shows "\<exists>origin destination path ls ts.
           request_points req = Some (origin, destination) \<and>
           fst (find_shortest_path e s origin destination) = Inr (Some path) \<and>
           index0_values e (graph s) ''length'' path ls \<and> d = sum_list ls \<and>
           index0_values e (graph s) ''travel_time'' path ts \<and> t = sum_list ts"
proof -
  from shortest_path_200[OF assms] obtain origin destination path where
    r: "request_points req = Some (origin, destination)" and
    f: "find_shortest_path e s origin destination = (Inr (Some path), s')" and
    d: "path_sum e (graph s') path ''length'' = Inr d" and
    t: "path_sum e (graph s') path ''travel_time'' = Inr t" by auto
  from find_shortest_path_frame[OF f] have g: "graph s' = graph s" by (simp add: same_but_cache_def)
  from path_sum_index0[OF d] path_sum_index0[OF t] g obtain ls ts where
    "index0_values e (graph s) ''length'' path ls" "d = sum_list ls"
    "index0_values e (graph s) ''travel_time'' path ts" "t = sum_list ts" by auto
  with r f show ?thesis by (intro exI[of _ origin] exI[of _ destination] exI[of _ path] exI[of _ ls] exI[of _ ts]) simp
qed

theorem stats_sum_index0_edges_witness:
  "shortest_path ex_env ex_ready (ex_request (12.97, 77.59) (12.99, 77.61)) =
     ((200, RouteBody [(PNum 12.97, PNum 77.59), (PNum 12.98, PNum 77.60),
                       (PNum 12.99, PNum 77.61)] 300 24),
      ex_ready\<lparr>lru := [((PNum 12.99, PNum 77.61), 3), ((PNum 12.97, PNum 77.59), 1)],
               search_calls := 2\<rparr>) \<and>
   (\<exists>origin destination path ls ts.
       request_points (ex_request (12.97, 77.59) (12.99, 77.61)) = Some (origin, destination) \<and>
       fst (find_shortest_path ex_env ex_ready origin destination) = Inr (Some path) \<and>
       index0_values ex_env (graph ex_ready) ''length'' path ls \<and> 300 = sum_list ls \<and>
       index0_values ex_env (graph ex_ready) ''travel_time'' path ts \<and> 24 = sum_list ts)"
proof -
  have h: "shortest_path ex_env ex_ready (ex_request (12.97, 77.59) (12.99, 77.61)) =
     ((200, RouteBody [(PNum 12.97, PNum 77.59), (PNum 12.98, PNum 77.60),
                       (PNum 12.99, PNum 77.61)] 300 24),
      ex_ready\<lparr>lru := [((PNum 12.99, PNum 77.61), 3), ((PNum 12.97, PNum 77.59), 1)],
               search_calls := 2\<rparr>)"
    by (simp add: ex_defs model_defs)
  from stats_sum_index0_edges[OF h] h show ?thesis by simp
qed

text \<open>
  The claim C6 as the specification has it fails for coordinates that map to no node. The
  service starts from a cache file whose graph has no node; the lookup of the origin
  raises a \<open>ValueError\<close>, which \<open>find_shortest_path\<close> does not catch, and the answer
  is 500.
\<close>

theorem lookup_without_node_counterexample:
  "load_graph ex_env (new_service (Some (Pickled ex_empty))) = (None, ex_hollow) \<and>
   nearest_nodes ex_env (graph ex_hollow) (PNum 77.59) (PNum 12.97) =
     Inl (Exc ValueError ''graph contains no nodes'') \<and>
   shortest_path ex_env ex_hollow (ex_request (12.97, 77.59) (12.99, 77.61)) =
     ((500, ErrorBody ''graph contains no nodes''), ex_hollow\<lparr>search_calls := 1\<rparr>)"
  by (simp add: download_defs ex_defs ex_defs3 model_defs)

text \<open>
  C6, amended. For a request whose body yields the two tuples: when a lookup of a nearest
  node or the search between the resolved nodes raises \<open>NetworkXNoPath\<close> or
  \<open>NodeNotFound\<close> (no path between the nodes, or a node that is not in the graph), the
  answer is 404 with the body \<open>{"error": "No path found between the given points"}\<close>;
  when one of them raises any other exception, as a lookup that finds no node does, the
  answer is 500 with the text of the exception.
\<close>

theorem search_exception_answer:
  assumes "request_points req = Some (origin, destination)"
    and "raised_in_search e s origin destination err s'"
  shows "shortest_path e s req =
           (if no_path_class err
            then (404, ErrorBody ''No path found between the given points'')
            else (500, ErrorBody (str_exc err)), s')"
proof -
  have f: "find_shortest_path e s origin destination = (catch_no_path err, s')"
  proof -
    from assms(2) consider
      (a) "get_nearest_node e s origin = (Inl err, s')"
    | (b) u s1 where "get_nearest_node e s origin = (Inr u, s1)"
        "get_nearest_node e s1 destination = (Inl err, s')"
    | (c) u s1 v where "get_nearest_node e s origin = (Inr u, s1)"
        "get_nearest_node e s1 destination = (Inr v, s')"
        "nx_shortest_path e (graph s) u v ''travel_time'' = Inl err"
      unfolding raised_in_search_def by blast
    then show ?thesis
    proof cases
      case a
      then show ?thesis by (simp add: find_shortest_path_def)
    next
      case b
      then show ?thesis by (simp add: find_shortest_path_def)
    next
      case c
      from get_nearest_node_frame[OF c(1)] get_nearest_node_frame[OF c(2)]
      have "graph s' = graph s" by (simp add: same_but_cache_def)
      with c show ?thesis by (simp add: find_shortest_path_def)
    qed
  qed
  show ?thesis
  proof (cases "no_path_class err")
    case True
    with f have "find_shortest_path e s origin destination = (Inr None, s')"
      by (simp add: catch_no_path_def no_path_class_def)
    with assms(1) True show ?thesis
      by (auto simp: shortest_path_def shortest_path_try_def request_points_def
               split: sum.splits option.splits)
  next
    case False
    with f have "find_shortest_path e s origin destination = (Inl err, s')"
      by (simp add: catch_no_path_def no_path_class_def)
    with assms(1) False show ?thesis
      by (auto simp: shortest_path_def shortest_path_try_def request_points_def
               split: sum.splits option.splits)
  qed
qed

theorem search_exception_answer_witness:
  "request_points (ex_request (12.99, 77.61) (12.97, 77.59)) =
     Some ([PNum 12.99, PNum 77.61], [PNum 12.97, PNum 77.59]) \<and>
   nx_shortest_path ex_env (graph ex_ready) 3 1 ''travel_time'' =
     Inl (Exc NetworkXNoPath ''No path between the nodes'') \<and>
   shortest_path ex_env ex_ready (ex_request (12.99, 77.61) (12.97, 77.59)) =
     ((404, ErrorBody ''No path found between the given points''),
      ex_ready\<lparr>lru := [((PNum 12.97, PNum 77.59), 1), ((PNum 12.99, PNum 77.61), 3)],
               search_calls := 2\<rparr>) \<and>
   shortest_path ex_env ex_hollow (ex_request (12.97, 77.59) (12.99, 77.61)) =
     ((500, ErrorBody ''graph contains no nodes''), ex_hollow\<lparr>search_calls := 1\<rparr>)"
proof -
  let ?s1 = "ex_ready\<lparr>lru := [((PNum 12.99, PNum 77.61), 3)], search_calls := 1\<rparr>"
  let ?s2 = "ex_ready\<lparr>lru := [((PNum 12.97, PNum 77.59), 1), ((PNum 12.99, PNum 77.61), 3)],
                      search_calls := 2\<rparr>"
  let ?np = "Exc NetworkXNoPath ''No path between the nodes''"
  let ?ve = "Exc ValueError ''graph contains no nodes''"
  have h1: "request_points (ex_request (12.99, 77.61) (12.97, 77.59)) =
              Some ([PNum 12.99, PNum 77.61], [PNum 12.97, PNum 77.59])"
    by (simp add: ex_defs model_defs)
  have h2: "get_nearest_node ex_env ex_ready [PNum 12.99, PNum 77.61] = (Inr 3, ?s1)"
    by (simp add: ex_defs model_defs)
  have h3: "get_nearest_node ex_env ?s1 [PNum 12.97, PNum 77.59] = (Inr 1, ?s2)"
    by (simp add: ex_defs model_defs)
  have h4: "nx_shortest_path ex_env (graph ex_ready) 3 1 ''travel_time'' = Inl ?np"
    by (simp add: ex_defs model_defs)
  from h2 h3 h4 have r: "raised_in_search ex_env ex_ready [PNum 12.99, PNum 77.61]
      [PNum 12.97, PNum 77.59] ?np ?s2"
    unfolding raised_in_search_def by blast
  have c: "no_path_class ?np" by (simp add: no_path_class_def)
  have g1: "request_points (ex_request (12.97, 77.59) (12.99, 77.61)) =
              Some ([PNum 12.97, PNum 77.59], [PNum 12.99, PNum 77.61])"
    by (simp add: ex_defs model_defs)
  have g2: "get_nearest_node ex_env ex_hollow [PNum 12.97, PNum 77.59] =
              (Inl ?ve, ex_hollow\<lparr>search_calls := 1\<rparr>)"
    by (simp add: ex_defs ex_defs3 model_defs)
  then have r2: "raised_in_search ex_env ex_hollow [PNum 12.97, PNum 77.59]
      [PNum 12.99, PNum 77.61] ?ve (ex_hollow\<lparr>search_calls := 1\<rparr>)"
    unfolding raised_in_search_def by blast
  have c2: "\<not> no_path_class ?ve" by (simp add: no_path_class_def)
  from search_exception_answer[OF h1 r] c
  have 1: "shortest_path ex_env ex_ready (ex_request (12.99, 77.61) (12.97, 77.59)) =
     ((404, ErrorBody ''No path found between the given points''), ?s2)" by simp
  from search_exception_answer[OF g1 r2] c2
  have 2: "shortest_path ex_env ex_hollow (ex_request (12.97, 77.59) (12.99, 77.61)) =
     ((500, ErrorBody ''graph contains no nodes''), ex_hollow\<lparr>search_calls := 1\<rparr>)" by simp
  from h1 h4 1 2 show ?thesis by simp
qed




text \<open>
  C8. Every exception raised while a request is handled is caught and answered 500 with
  the text of the exception as the \<open>error\<close> of the body: a body without the key
  \<open>origin\<close> (the text is the key between quotes), a body that is not JSON, a body that
  does not yield the two tuples, and any exception of the steps after them.
\<close>

theorem exceptions_give_500:
  "(\<forall>d. req = Inr (PDict d) \<and> map_of d ''origin'' = None \<longrightarrow>
      shortest_path e s req = ((500, ErrorBody ([CHR 0x27] @ ''origin'' @ [CHR 0x27])), s)) \<and>
   (\<forall>err. req = Inl err \<longrightarrow> shortest_path e s req = ((500, ErrorBody (str_exc err)), s)) \<and>
   (request_points req = None \<longrightarrow>
      (\<exists>err. shortest_path_try e s req = (Inl err, s) \<and>
             shortest_path e s req = ((500, ErrorBody (str_exc err)), s))) \<and>
   (\<forall>err s1. shortest_path_try e s req = (Inl err, s1) \<longrightarrow>
      shortest_path e s req = ((500, ErrorBody (str_exc err)), s1))"
  by (auto simp: shortest_path_def shortest_path_try_def request_points_def dict_get_def
        key_error_def split: sum.splits option.splits)

theorem exceptions_give_500_witness:
  "map_of [(''destination'', PList [PNum 12.97, PNum 77.59])] ''origin'' = None \<and>
   shortest_path ex_env ex_ready (Inr (PDict [(''destination'', PList [PNum 12.97, PNum 77.59])])) =
     ((500, ErrorBody ([CHR 0x27] @ ''origin'' @ [CHR 0x27])), ex_ready)"
proof -
  have h: "map_of [(''destination'', PList [PNum 12.97, PNum 77.59])] ''origin'' = None" by simp
  from exceptions_give_500[of "Inr (PDict [(''destination'', PList [PNum 12.97, PNum 77.59])])"
      ex_env ex_ready] h
  show ?thesis by blast
qed

section \<open>Loading, refreshing and failing\<close>

lemma should_update_graph_fst:
  "fst (should_update_graph e s) \<longleftrightarrow>
     \<not> graph_truthy (graph s) \<or> last_update s = None \<or>
     (\<exists>t. last_update s = Some t \<and> datetime_now e (clock_reads s) - t > 24 * 60 * 60)"
  by (auto simp: should_update_graph_def update_interval_def split: option.splits)

lemma should_update_graph_False:
  "\<not> fst (should_update_graph e s) \<Longrightarrow>
     should_update_graph e s = (False, s\<lparr>clock_reads := Suc (clock_reads s)\<rparr>)"
  by (auto simp: should_update_graph_def split: option.splits if_splits)

lemma download_place_calls:
  "place_calls (snd (download_and_cache_graph e s)) = Suc (place_calls s)"
proof -
  have p: "place_calls (snd (download_by_place e s)) = Suc (place_calls s)"
    by (simp add: download_by_place_def annotate_and_cache_def write_cache_def Let_def
        split: sum.splits prod.splits option.splits write_outcome.splits)
  have b: "place_calls (snd (download_using_bbox e s1)) = place_calls s1" for s1
    by (simp add: download_using_bbox_def annotate_and_cache_def write_cache_def Let_def
        split: sum.splits prod.splits option.splits write_outcome.splits)
  obtain r s1 where d: "download_by_place e s = (r, s1)" by (cases "download_by_place e s")
  with p b[of s1] show ?thesis
    by (cases r) (simp_all add: download_and_cache_graph_def)
qed

lemma both_downloads_raise:
  assumes "graph_from_place e place_query (place_calls s) = Inl e1"
    and "graph_from_bbox e bbox (bbox_calls s) = Inl e2"
  shows "download_and_cache_graph e s =
           (Some e2, s\<lparr>place_calls := Suc (place_calls s), bbox_calls := Suc (bbox_calls s)\<rparr>)"
  using assms
  by (simp add: download_and_cache_graph_def download_by_place_def download_using_bbox_def Let_def)

lemma should_update_graph_calls:
  "place_calls (snd (should_update_graph e s)) = place_calls s \<and>
   bbox_calls (snd (should_update_graph e s)) = bbox_calls s \<and>
   graph (snd (should_update_graph e s)) = graph s \<and>
   cache_file (snd (should_update_graph e s)) = cache_file s \<and>
   last_update (snd (should_update_graph e s)) = last_update s"
  by (simp add: should_update_graph_def split: option.splits)

lemma should_update_graph_no_graph:
  "\<not> graph_truthy (graph s) \<Longrightarrow> should_update_graph e s = (True, s)"
  by (simp add: should_update_graph_def)

text \<open>
  The claim C4 as the specification has it fails: after a failed load of the cache file no
  download is attempted when a graph is in memory. Here the first start downloads a graph
  and fails to write the file; the next call of \<open>load_graph\<close> is due (no time of update
  was recorded), finds the file unreadable, and returns with no download and no change.
\<close>

theorem no_download_after_load_failure_counterexample:
  "load_graph ex_env_dumpfail (new_service None) = (None, ex_unsaved) \<and>
   cache_file ex_unsaved = Some Corrupt \<and>
   fst (should_update_graph ex_env_dumpfail ex_unsaved) \<and>
   load_graph ex_env_dumpfail ex_unsaved = (None, ex_unsaved) \<and>
   place_calls (snd (load_graph ex_env_dumpfail ex_unsaved)) = place_calls ex_unsaved \<and>
   bbox_calls (snd (load_graph ex_env_dumpfail ex_unsaved)) = bbox_calls ex_unsaved"
  by (simp add: download_defs dict_get_def ex_defs ex_defs2)


text \<open>
  C4, amended. \<open>load_graph\<close> reloads exactly when the graph in memory is absent or empty,
  no time of update is recorded, or more than 24 hours have passed since that time;
  otherwise it changes nothing. When it reloads: a cache file that unpickles becomes the
  graph in memory as it is stored, the time is recorded, and nothing is downloaded or
  written; a cache file that does not load leads to a download only when the graph in
  memory is absent or empty, and is otherwise left with the state as it was; an absent
  cache file leads to a download, and the time is recorded when it succeeds. A download
  that succeeds, by either method, leaves in memory the downloaded graph with every edge
  annotated and the same graph in the cache file.
\<close>

theorem load_graph_cases:
  "(fst (should_update_graph e s) \<longleftrightarrow>
      \<not> graph_truthy (graph s) \<or> last_update s = None \<or>
      (\<exists>t. last_update s = Some t \<and> datetime_now e (clock_reads s) - t > 24 * 60 * 60)) \<and>
   (\<not> fst (should_update_graph e s) \<longrightarrow>
      load_graph e s = (None, s\<lparr>clock_reads := Suc (clock_reads s)\<rparr>)) \<and>
   (fst (should_update_graph e s) \<longrightarrow>
      (\<forall>g. cache_file s = Some (Pickled g) \<longrightarrow>
         load_graph e s = (None, stamp e ((snd (should_update_graph e s))\<lparr>graph := Some g\<rparr>))) \<and>
      (cache_file s = Some Corrupt \<longrightarrow>
         load_graph e s =
           (if graph_truthy (graph s) then (None, snd (should_update_graph e s))
            else download_and_cache_graph e s)) \<and>
      (cache_file s = None \<longrightarrow>
         place_calls (snd (load_graph e s)) > place_calls s \<and>
         (\<forall>s2. download_and_cache_graph e (snd (should_update_graph e s)) = (None, s2) \<longrightarrow>
            load_graph e s = (None, stamp e s2)))) \<and>
   (\<forall>s0 s2. download_and_cache_graph e s0 = (None, s2) \<longrightarrow>
      (\<exists>g0 g'. (graph_from_place e place_query (place_calls s0) = Inr g0 \<or>
                 graph_from_bbox e bbox (bbox_calls s0) = Inr g0) \<and>
         graph s2 = Some g' \<and> cache_file s2 = Some (Pickled g') \<and>
         g_nodes g' = g_nodes g0 \<and> list_all2 (edge_rel e) (g_edges g0) (g_edges g')))"
proof -
  obtain b s1 where su: "should_update_graph e s = (b, s1)" by (cases "should_update_graph e s")
  from su should_update_graph_calls[of e s]
  have c: "place_calls s1 = place_calls s" "bbox_calls s1 = bbox_calls s" "graph s1 = graph s"
    "cache_file s1 = cache_file s" by simp_all
  have 1: "\<not> fst (should_update_graph e s) \<longrightarrow>
      load_graph e s = (None, s\<lparr>clock_reads := Suc (clock_reads s)\<rparr>)"
    by (auto simp: load_graph_def dest: should_update_graph_False)
  have 2: "load_graph e s = (None, stamp e (s1\<lparr>graph := Some g\<rparr>))"
    if "b" "cache_file s = Some (Pickled g)" for g
    using that su c by (simp add: load_graph_def load_or_download_def)
  have 3: "load_graph e s = (if graph_truthy (graph s) then (None, s1)
            else download_and_cache_graph e s)"
    if "b" "cache_file s = Some Corrupt"
  proof (cases "graph_truthy (graph s)")
    case True
    with that su c show ?thesis by (simp add: load_graph_def load_or_download_def)
  next
    case False
    then have "should_update_graph e s = (True, s)" by (rule should_update_graph_no_graph)
    with su have "s1 = s" by simp
    with that su c False show ?thesis by (simp add: load_graph_def load_or_download_def)
  qed
  have 4: "place_calls (snd (load_graph e s)) > place_calls s"
    if "b" "cache_file s = None"
  proof -
    obtain r s2 where d: "download_and_cache_graph e s1 = (r, s2)"
      by (cases "download_and_cache_graph e s1")
    with download_place_calls[of e s1] c have p2: "place_calls s2 = Suc (place_calls s)" by simp
    from download_place_calls[of e s2] p2
    have p3: "place_calls (snd (download_and_cache_graph e s2)) > place_calls s" by simp
    from that su c d p2 p3 show ?thesis
      by (cases r) (simp_all add: load_graph_def load_or_download_def stamp_def)
  qed
  have 5: "load_graph e s = (None, stamp e s2)"
    if "b" "cache_file s = None" "download_and_cache_graph e s1 = (None, s2)" for s2
    using that su c by (simp add: load_graph_def load_or_download_def)
  have 6: "\<exists>g0 g'. (graph_from_place e place_query (place_calls s0) = Inr g0 \<or>
                 graph_from_bbox e bbox (bbox_calls s0) = Inr g0) \<and>
         graph s2 = Some g' \<and> cache_file s2 = Some (Pickled g') \<and>
         g_nodes g' = g_nodes g0 \<and> list_all2 (edge_rel e) (g_edges g0) (g_edges g')"
    if "download_and_cache_graph e s0 = (None, s2)" for s0 s2
  proof -
    from download_and_cache_graph_None[OF that] obtain g es' where
      "graph_from_place e place_query (place_calls s0) = Inr g \<or>
       graph_from_bbox e bbox (bbox_calls s0) = Inr g"
      "annotate_edges e (g_edges g) = (None, es')"
      "graph s2 = Some (g\<lparr>g_edges := es'\<rparr>)"
      "cache_file s2 = Some (Pickled (g\<lparr>g_edges := es'\<rparr>))" by blast
    then show ?thesis
      by (intro exI[of _ g] exI[of _ "g\<lparr>g_edges := es'\<rparr>"]) (simp add: annotate_edges_None)
  qed
  from su have fs: "fst (should_update_graph e s) = b" "snd (should_update_graph e s) = s1"
    by simp_all
  show ?thesis
    unfolding fs
    using should_update_graph_fst[of e s, unfolded fs] 1[unfolded fs] 2 3 4 5 6
    by blast
qed

theorem load_graph_cases_witness:
  "fst (should_update_graph ex_env (new_service None)) \<and> cache_file (new_service None) = None \<and>
   download_and_cache_graph ex_env (new_service None) = (None, ex_downloaded) \<and>
   load_graph ex_env (new_service None) = (None, ex_ready) \<and>
   place_calls (snd (load_graph ex_env (new_service None))) > place_calls (new_service None)"
proof -
  have u: "fst (should_update_graph ex_env (new_service None))"
    by (simp add: should_update_graph_def graph_truthy_def new_service_def)
  have s1: "snd (should_update_graph ex_env (new_service None)) = new_service None"
    by (simp add: should_update_graph_def graph_truthy_def new_service_def)
  have f: "cache_file (new_service None) = None" by (simp add: new_service_def)
  have d: "download_and_cache_graph ex_env (new_service None) = (None, ex_downloaded)"
    by (simp add: download_defs dict_get_def ex_defs ex_downloaded_def)
  have st: "stamp ex_env ex_downloaded = ex_ready"
    by (simp add: stamp_def ex_defs ex_downloaded_def)
  from load_graph_cases[of ex_env "new_service None"] u s1 f d st
  show ?thesis by (simp add: ex_ready_def new_service_def)
qed

text \<open>
  The claim C5 as the specification has it fails twice. At the first start of the first
  world the attempt by place fails in the annotation, the fallback fails too, and
  \<open>load_graph\<close> returns normally with the unannotated graph in memory, where there was
  none. In that state, when both downloads raise, \<open>load_graph\<close> again returns normally:
  the exception does not leave it.
\<close>

theorem failure_swallowed_counterexample:
  "load_graph ex_env_stale (new_service None) = (None, ex_degraded) \<and>
   graph (new_service None) = None \<and> graph ex_degraded = Some ex_old_raw \<and>
   graph_from_place ex_env_down place_query (place_calls ex_degraded) = Inl (Exc OtherException ''no network'') \<and>
   graph_from_bbox ex_env_down bbox (bbox_calls ex_degraded) = Inl (Exc OtherException ''no network'') \<and>
   fst (load_graph ex_env_down ex_degraded) = None"
  by (simp add: download_defs dict_get_def ex_defs ex_defs2)


text \<open>
  C5, amended. An exception of the attempt by place, in the download, the annotation or
  the write, leads to the attempt by bounding box. When both downloads raise,
  \<open>download_and_cache_graph\<close> raises the exception of the fallback and leaves the graph,
  the time of update and the cache file as they were. What \<open>load_graph\<close> then does, when
  a reload is due, depends on the graph in memory and on the cache file. With a graph in
  memory nothing leaves \<open>load_graph\<close>: when the cache file is absent the failed download
  is caught and the method returns normally; when the cache file does not load no
  download is attempted; the graph is unchanged in both cases. With no graph in memory the
  exception leaves \<open>load_graph\<close>, the graph still absent: when the cache file is absent,
  after a second attempt at the download has failed too; when the cache file does not
  load, after the one attempt of the \<open>except\<close> clause.
\<close>

theorem fallback_then_failure:
  "(\<forall>err s1. download_by_place e s = (Some err, s1) \<longrightarrow>
      download_and_cache_graph e s = download_using_bbox e s1 \<and>
      bbox_calls (snd (download_and_cache_graph e s)) = Suc (bbox_calls s)) \<and>
   (\<forall>e1 e2. graph_from_place e place_query (place_calls s) = Inl e1 \<and>
            graph_from_bbox e bbox (bbox_calls s) = Inl e2 \<longrightarrow>
      download_and_cache_graph e s =
        (Some e2, s\<lparr>place_calls := Suc (place_calls s), bbox_calls := Suc (bbox_calls s)\<rparr>) \<and>
      (fst (should_update_graph e s) \<and> cache_file s = None \<and> graph_truthy (graph s) \<longrightarrow>
         load_graph e s =
           (None, (snd (should_update_graph e s))
                    \<lparr>place_calls := Suc (place_calls s), bbox_calls := Suc (bbox_calls s)\<rparr>)) \<and>
      (fst (should_update_graph e s) \<and> cache_file s = Some Corrupt \<and> graph_truthy (graph s) \<longrightarrow>
         load_graph e s = (None, snd (should_update_graph e s))) \<and>
      (\<forall>e3 e4. cache_file s = None \<and> \<not> graph_truthy (graph s) \<and>
          graph_from_place e place_query (Suc (place_calls s)) = Inl e3 \<and>
          graph_from_bbox e bbox (Suc (bbox_calls s)) = Inl e4 \<longrightarrow>
         load_graph e s =
           (Some e4, s\<lparr>place_calls := Suc (Suc (place_calls s)),
                        bbox_calls := Suc (Suc (bbox_calls s))\<rparr>)) \<and>
      (cache_file s = Some Corrupt \<and> \<not> graph_truthy (graph s) \<longrightarrow>
         load_graph e s =
           (Some e2, s\<lparr>place_calls := Suc (place_calls s), bbox_calls := Suc (bbox_calls s)\<rparr>)))"
proof (intro conjI allI impI)
  fix err s1 assume p: "download_by_place e s = (Some err, s1)"
  then show "download_and_cache_graph e s = download_using_bbox e s1"
    by (simp add: download_and_cache_graph_def)
  from p download_by_place_bbox_calls[of e s] have "bbox_calls s1 = bbox_calls s" by simp
  moreover have "bbox_calls (snd (download_using_bbox e s1)) = Suc (bbox_calls s1)"
    by (simp add: download_using_bbox_def annotate_and_cache_def write_cache_def Let_def
        split: sum.splits prod.splits option.splits write_outcome.splits)
  ultimately show "bbox_calls (snd (download_and_cache_graph e s)) = Suc (bbox_calls s)"
    using p by (simp add: download_and_cache_graph_def)
next
  fix e1 e2
  assume a: "graph_from_place e place_query (place_calls s) = Inl e1 \<and>
             graph_from_bbox e bbox (bbox_calls s) = Inl e2"
  then show "download_and_cache_graph e s =
        (Some e2, s\<lparr>place_calls := Suc (place_calls s), bbox_calls := Suc (bbox_calls s)\<rparr>)"
    by (simp add: both_downloads_raise)
next
  fix e1 e2
  assume a: "graph_from_place e place_query (place_calls s) = Inl e1 \<and>
             graph_from_bbox e bbox (bbox_calls s) = Inl e2"
    and u: "fst (should_update_graph e s) \<and> cache_file s = None \<and> graph_truthy (graph s)"
  obtain b s1 where su: "should_update_graph e s = (b, s1)" by (cases "should_update_graph e s")
  with u have b: "b = True" by simp
  from su should_update_graph_calls[of e s]
  have c: "place_calls s1 = place_calls s" "bbox_calls s1 = bbox_calls s" "graph s1 = graph s"
    "cache_file s1 = cache_file s" by simp_all
  from a c have "download_and_cache_graph e s1 =
          (Some e2, s1\<lparr>place_calls := Suc (place_calls s), bbox_calls := Suc (bbox_calls s)\<rparr>)"
    using both_downloads_raise[of e s1 e1 e2] by simp
  with su b u c
  have "load_graph e s =
           (None, s1\<lparr>place_calls := Suc (place_calls s), bbox_calls := Suc (bbox_calls s)\<rparr>)"
    by (simp add: load_graph_def load_or_download_def)
  with su show "load_graph e s =
           (None, (snd (should_update_graph e s))
                    \<lparr>place_calls := Suc (place_calls s), bbox_calls := Suc (bbox_calls s)\<rparr>)"
    by simp
next
  assume u: "fst (should_update_graph e s) \<and> cache_file s = Some Corrupt \<and> graph_truthy (graph s)"
  obtain b s1 where su: "should_update_graph e s = (b, s1)" by (cases "should_update_graph e s")
  with u have b: "b = True" by simp
  from su should_update_graph_calls[of e s]
  have c: "graph s1 = graph s" "cache_file s1 = cache_file s" by simp_all
  with su b u have "load_graph e s = (None, s1)"
    by (simp add: load_graph_def load_or_download_def)
  with su show "load_graph e s = (None, snd (should_update_graph e s))" by simp
next
  fix e1 e2 e3 e4
  assume a: "graph_from_place e place_query (place_calls s) = Inl e1 \<and>
             graph_from_bbox e bbox (bbox_calls s) = Inl e2"
    and u: "cache_file s = None \<and> \<not> graph_truthy (graph s) \<and>
          graph_from_place e place_query (Suc (place_calls s)) = Inl e3 \<and>
          graph_from_bbox e bbox (Suc (bbox_calls s)) = Inl e4"
  let ?s2 = "s\<lparr>place_calls := Suc (place_calls s), bbox_calls := Suc (bbox_calls s)\<rparr>"
  from u have su: "should_update_graph e s = (True, s)" by (simp add: should_update_graph_no_graph)
  from a have d1: "download_and_cache_graph e s = (Some e2, ?s2)" by (simp add: both_downloads_raise)
  from u have d2: "download_and_cache_graph e ?s2 =
      (Some e4, ?s2\<lparr>place_calls := Suc (place_calls ?s2), bbox_calls := Suc (bbox_calls ?s2)\<rparr>)"
    by (intro both_downloads_raise[of e ?s2 e3 e4]) simp_all
  from su d1 d2 u
  show "load_graph e s =
           (Some e4, s\<lparr>place_calls := Suc (Suc (place_calls s)),
                        bbox_calls := Suc (Suc (bbox_calls s))\<rparr>)"
    by (simp add: load_graph_def load_or_download_def)
next
  fix e1 e2
  assume a: "graph_from_place e place_query (place_calls s) = Inl e1 \<and>
             graph_from_bbox e bbox (bbox_calls s) = Inl e2"
    and u: "cache_file s = Some Corrupt \<and> \<not> graph_truthy (graph s)"
  from u have su: "should_update_graph e s = (True, s)" by (simp add: should_update_graph_no_graph)
  from a have d1: "download_and_cache_graph e s =
      (Some e2, s\<lparr>place_calls := Suc (place_calls s), bbox_calls := Suc (bbox_calls s)\<rparr>)"
    by (simp add: both_downloads_raise)
  from su d1 u
  show "load_graph e s =
           (Some e2, s\<lparr>place_calls := Suc (place_calls s), bbox_calls := Suc (bbox_calls s)\<rparr>)"
    by (simp add: load_graph_def load_or_download_def)
qed

theorem fallback_then_failure_witness:
  "graph_from_place ex_env_down place_query (place_calls ex_degraded) = Inl (Exc OtherException ''no network'') \<and>
   graph_from_bbox ex_env_down bbox (bbox_calls ex_degraded) = Inl (Exc OtherException ''no network'') \<and>
   fst (should_update_graph ex_env_down ex_degraded) \<and> cache_file ex_degraded = None \<and>
   graph_truthy (graph ex_degraded) \<and>
   load_graph ex_env_down ex_degraded = (None, ex_degraded\<lparr>place_calls := 2, bbox_calls := 2\<rparr>) \<and>
   load_graph ex_env_down (new_service None) =
     (Some (Exc OtherException ''no network''), (new_service None)\<lparr>place_calls := 2, bbox_calls := 2\<rparr>) \<and>
   load_graph ex_env_down (new_service (Some Corrupt)) =
     (Some (Exc OtherException ''no network''),
      (new_service (Some Corrupt))\<lparr>place_calls := 1, bbox_calls := 1\<rparr>)"
proof -
  have h: "graph_from_place ex_env_down place_query (place_calls ex_degraded) = Inl (Exc OtherException ''no network'') \<and>
   graph_from_bbox ex_env_down bbox (bbox_calls ex_degraded) = Inl (Exc OtherException ''no network'')"
    by (simp add: ex_defs ex_defs2)
  have u: "fst (should_update_graph ex_env_down ex_degraded) \<and> cache_file ex_degraded = None \<and>
   graph_truthy (graph ex_degraded)"
    by (simp add: ex_defs ex_defs2 should_update_graph_def graph_truthy_def)
  have s1: "snd (should_update_graph ex_env_down ex_degraded) = ex_degraded"
    by (simp add: ex_defs ex_defs2 should_update_graph_def graph_truthy_def)
  have h0: "graph_from_place ex_env_down place_query (place_calls (new_service f)) = Inl (Exc OtherException ''no network'') \<and>
   graph_from_bbox ex_env_down bbox (bbox_calls (new_service f)) = Inl (Exc OtherException ''no network'')" for f
    by (simp add: ex_defs ex_defs2)
  have u0: "cache_file (new_service None) = None \<and> \<not> graph_truthy (graph (new_service None)) \<and>
          graph_from_place ex_env_down place_query (Suc (place_calls (new_service None))) = Inl (Exc OtherException ''no network'') \<and>
          graph_from_bbox ex_env_down bbox (Suc (bbox_calls (new_service None))) = Inl (Exc OtherException ''no network'')"
    by (simp add: ex_defs ex_defs2 graph_truthy_def)
  have u1: "cache_file (new_service (Some Corrupt)) = Some Corrupt \<and>
            \<not> graph_truthy (graph (new_service (Some Corrupt)))"
    by (simp add: new_service_def graph_truthy_def)
  from fallback_then_failure[of ex_env_down ex_degraded] h u s1
  have 1: "load_graph ex_env_down ex_degraded = (None, ex_degraded\<lparr>place_calls := 2, bbox_calls := 2\<rparr>)"
    by (simp add: ex_degraded_def new_service_def)
  from fallback_then_failure[of ex_env_down "new_service None"] h0[of None] u0
  have 2: "load_graph ex_env_down (new_service None) =
     (Some (Exc OtherException ''no network''), (new_service None)\<lparr>place_calls := 2, bbox_calls := 2\<rparr>)"
    by (simp add: new_service_def)
  from fallback_then_failure[of ex_env_down "new_service (Some Corrupt)"] h0[of "Some Corrupt"] u1
  have 3: "load_graph ex_env_down (new_service (Some Corrupt)) =
     (Some (Exc OtherException ''no network''),
      (new_service (Some Corrupt))\<lparr>place_calls := 1, bbox_calls := 1\<rparr>)"
    by (simp add: new_service_def)
  from h u 1 2 3 show ?thesis by simp
qed

section \<open>The path between the resolved nodes\<close>


lemma lookup_unhashable:
  "\<not> (hashable lat \<and> hashable lng) \<Longrightarrow>
     get_nearest_node e s [lat, lng] = (Inl (Exc TypeError ''unhashable type''), s)"
  by (auto simp: get_nearest_node_def)












end
